theory Spec2Isabelle
  imports Complex_Main "HOL-Library.AList"
begin

section \<open>JSON values and the JavaScript operations the relay applies to them\<close>

text \<open>
  The relay (the stdin/stdout proxy script) works on whatever \<^verbatim>\<open>JSON.parse\<close> returns.
  A parsed value is one of the six JSON kinds. An object is the list of its members, a
  member written anew going to the end; the properties below are stated on the members
  by name, so the order does not matter to them.

  A number is an IEEE double in the script: a finite value, a real here, or one of the
  two infinities, which \<^verbatim>\<open>JSON.parse\<close> returns for a literal beyond the range of a
  double (\<^verbatim>\<open>1e400\<close>, \<^verbatim>\<open>-1e400\<close>). No JSON text parses to NaN, and negative zero is
  zero here: it is falsy and printed as \<^verbatim>\<open>0\<close>, as zero is.
\<close>

datatype number =
    Finite real
  | Infinity
  | MinusInfinity

datatype json =
    JNull
  | JBool bool
  | JNum number
  | JStr string
  | JArr "json list"
  | JObj "(string \<times> json) list"

text \<open>JavaScript truthiness of a parsed value (\<^verbatim>\<open>!v\<close> is its negation).\<close>

fun truthy :: "json \<Rightarrow> bool" where
  "truthy JNull = False"
| "truthy (JBool b) = b"
| "truthy (JNum n) = (n \<noteq> Finite 0)"
| "truthy (JStr s) = (s \<noteq> [])"
| "truthy (JArr xs) = True"
| "truthy (JObj kvs) = True"

text \<open>\<^verbatim>\<open>!v\<close> where \<^verbatim>\<open>v\<close> may be \<^verbatim>\<open>undefined\<close> (\<open>None\<close>).\<close>

definition js_not :: "json option \<Rightarrow> bool" where
  "js_not v = (case v of None \<Rightarrow> True | Some j \<Rightarrow> \<not> truthy j)"

text \<open>
  Reading a member \<^verbatim>\<open>v.k\<close>, for the two names the script reads (\<^verbatim>\<open>id\<close> and
  \<^verbatim>\<open>jsonrpc\<close>, which no prototype defines): on \<^verbatim>\<open>null\<close> it throws a TypeError
  (\<open>Inl\<close> with the message), on an object it is the member or \<^verbatim>\<open>undefined\<close>
  (\<open>None\<close>), on an array or a primitive it is \<^verbatim>\<open>undefined\<close>.
\<close>

fun get_member :: "json \<Rightarrow> string \<Rightarrow> string + json option" where
  "get_member JNull k =
     Inl (''Cannot read properties of null (reading '' @ [CHR 0x27] @ k @ [CHR 0x27] @ '')'')"
| "get_member (JObj kvs) k = Inr (map_of kvs k)"
| "get_member (JBool b) k = Inr None"
| "get_member (JNum n) k = Inr None"
| "get_member (JStr s) k = Inr None"
| "get_member (JArr xs) k = Inr None"

text \<open>
  Writing a member \<^verbatim>\<open>v.k = x\<close> as \<^verbatim>\<open>JSON.stringify\<close> later sees it. The script
  is a CommonJS file without a strict-mode directive: on an object the member is replaced
  in place or appended; on a primitive the assignment is silently dropped; on an array it
  adds a named property that \<^verbatim>\<open>JSON.stringify\<close> does not print. The script never
  writes to \<^verbatim>\<open>null\<close>: the read of \<^verbatim>\<open>response.jsonrpc\<close> before it has thrown.
\<close>

fun set_member :: "json \<Rightarrow> string \<Rightarrow> json \<Rightarrow> json" where
  "set_member (JObj kvs) k x = JObj (AList.update k x kvs)"
| "set_member JNull k x = JNull"
| "set_member (JBool b) k x = JBool b"
| "set_member (JNum n) k x = JNum n"
| "set_member (JStr s) k x = JStr s"
| "set_member (JArr xs) k x = JArr xs"

text \<open>
  \<^verbatim>\<open>JSON.stringify(v)\<close> for a value built from parsed values, as the value the printed
  text denotes: an infinity is printed as \<^verbatim>\<open>null\<close>, inside arrays and objects too, and
  everything else is printed as it is.
\<close>

primrec stringify :: "json \<Rightarrow> json" where
  "stringify JNull = JNull"
| "stringify (JBool b) = JBool b"
| "stringify (JNum n) =
     (case n of Finite x \<Rightarrow> JNum (Finite x) | Infinity \<Rightarrow> JNull | MinusInfinity \<Rightarrow> JNull)"
| "stringify (JStr s) = JStr s"
| "stringify (JArr xs) = JArr (map stringify xs)"
| "stringify (JObj kvs) = JObj (map (map_prod id stringify) kvs)"

text \<open>\<^verbatim>\<open>process.stdout.write(JSON.stringify(v) + ...)\<close>: one line, the value as printed.\<close>

definition written :: "json \<Rightarrow> json list" where
  "written v = [stringify v]"


section \<open>The relay: \<^verbatim>\<open>sendToServer\<close> and \<^verbatim>\<open>processMessage\<close>\<close>

text \<open>
  What the HTTP client reports for one POST: the response ended (with the chunks received),
  the request timed out, or it failed with an error.
\<close>

datatype http_event =
    ResponseEnd "string list"
  | Timeout
  | RequestError string

text \<open>The arguments of one call of the callback: \<^verbatim>\<open>callback(error)\<close> or
  \<^verbatim>\<open>callback(null, responseData)\<close>.\<close>

datatype reply =
    Failed string
  | Body string

text \<open>The three handlers \<^verbatim>\<open>sendToServer\<close> registers on the request.\<close>

fun handler :: "http_event \<Rightarrow> reply" where
  "handler (ResponseEnd chunks) = Body (concat chunks)"
| "handler Timeout = Failed ''Timeout''"
| "handler (RequestError m) = Failed m"

text \<open>
  \<^verbatim>\<open>sendToServer(message, callback)\<close>: the callback runs once for every event of the
  request, and what it writes to stdout is collected in order.
\<close>

definition sendToServer :: "http_event list \<Rightarrow> (reply \<Rightarrow> json list) \<Rightarrow> json list" where
  "sendToServer events callback = concat (map (\<lambda>ev. callback (handler ev)) events)"

text \<open>
  Two ways a POST ends without a response. When nothing arrives within the timeout, the
  client reports the timeout; the handler of that event destroys the request, and the
  client then reports the error of the destroyed socket to the error handler as well.
  When the backend breaks the connection after the response has begun, the response never
  ends and the request reports nothing: none of the three handlers runs.
\<close>

definition timed_out :: "http_event list" where
  "timed_out = [Timeout, RequestError ''socket hang up'']"

definition aborted :: "http_event list" where
  "aborted = []"

text \<open>The error object the script builds in four places.\<close>

definition errorResponse :: "json \<Rightarrow> real \<Rightarrow> string \<Rightarrow> json" where
  "errorResponse requestId code msg =
     JObj [(''jsonrpc'', JStr ''2.0''),
           (''id'', requestId),
           (''error'', JObj [(''code'', JNum (Finite code)), (''message'', JStr msg)])]"

text \<open>
  The body of the inner \<^verbatim>\<open>try\<close> for a request: default \<^verbatim>\<open>jsonrpc\<close> when it is
  falsy, then overwrite \<^verbatim>\<open>id\<close>. \<open>Inl\<close> is the TypeError the inner \<^verbatim>\<open>catch\<close> receives.
\<close>

definition stamp :: "json \<Rightarrow> json \<Rightarrow> string + json" where
  "stamp requestId response =
     (case get_member response ''jsonrpc'' of
        Inl e \<Rightarrow> Inl e
      | Inr j \<Rightarrow>
          Inr (set_member
                 (if js_not j then set_member response ''jsonrpc'' (JStr ''2.0'') else response)
                 ''id'' requestId))"

text \<open>
  The test \<^verbatim>\<open>!responseData || !responseData.trim()\<close>: the body is empty or nothing but
  white space.
\<close>

definition blank :: "(string \<Rightarrow> string) \<Rightarrow> string \<Rightarrow> bool" where
  "blank trim s = (s = [] \<or> trim s = [])"

text \<open>
  The callback \<^verbatim>\<open>processMessage\<close> passes to \<^verbatim>\<open>sendToServer\<close>. \<open>requestId\<close> is
  \<^verbatim>\<open>message.id\<close>, \<open>None\<close> when it is \<^verbatim>\<open>undefined\<close> (\<^verbatim>\<open>isNotification\<close>).
  \<open>parse\<close> is \<^verbatim>\<open>JSON.parse\<close> (\<open>Inl\<close> the message of the SyntaxError it throws) and
  \<open>trim\<close> is \<^verbatim>\<open>String.prototype.trim\<close>: the two functions of the JavaScript runtime
  the script calls. The result is the list of lines written to stdout.
\<close>

definition on_reply ::
  "(string \<Rightarrow> string + json) \<Rightarrow> (string \<Rightarrow> string) \<Rightarrow> json option \<Rightarrow> reply
     \<Rightarrow> json list" where
  "on_reply parse trim requestId r =
     (case r of
        Failed msg \<Rightarrow>
          (case requestId of
             None \<Rightarrow> []
           | Some rid \<Rightarrow> written (errorResponse rid (- 32603) msg))
      | Body responseData \<Rightarrow>
          if blank trim responseData then
            (case requestId of
               None \<Rightarrow> []
             | Some rid \<Rightarrow> written (errorResponse rid (- 32603) ''Empty response from server''))
          else
            (case parse responseData of
               Inl e \<Rightarrow>
                 (case requestId of
                    None \<Rightarrow> []
                  | Some rid \<Rightarrow>
                      written (errorResponse rid (- 32700) (''Invalid JSON response: '' @ e)))
             | Inr response \<Rightarrow>
                 (case requestId of
                    None \<Rightarrow> []
                  | Some rid \<Rightarrow>
                      (case stamp rid response of
                         Inl e \<Rightarrow>
                           written (errorResponse rid (- 32700) (''Invalid JSON response: '' @ e))
                       | Inr out \<Rightarrow> written out))))"

text \<open>
  \<^verbatim>\<open>processMessage(messageText)\<close>. \<open>backend\<close> gives the events of the POST of a
  message. The result is the list of messages handed to \<^verbatim>\<open>sendToServer\<close> and the list
  of lines written.
\<close>

definition processMessage ::
  "(string \<Rightarrow> string + json) \<Rightarrow> (string \<Rightarrow> string) \<Rightarrow> (json \<Rightarrow> http_event list) \<Rightarrow> string
     \<Rightarrow> json list \<times> json list" where
  "processMessage parse trim backend messageText =
     (case parse messageText of
        Inl e \<Rightarrow> ([], written (errorResponse JNull (- 32700) (''Invalid JSON request: '' @ e)))
      | Inr message \<Rightarrow>
          (case get_member message ''id'' of
             Inl e \<Rightarrow>
               ([], written (errorResponse JNull (- 32700) (''Invalid JSON request: '' @ e)))
           | Inr requestId \<Rightarrow>
               ([message], sendToServer (backend message) (on_reply parse trim requestId))))"

section \<open>The client pool: \<^verbatim>\<open>generateAuthCacheKey\<close> and \<^verbatim>\<open>MCPClientManager\<close>\<close>

text \<open>
  The three fields of an authentication context are optional strings. The transport type
  is declared as \<^verbatim>\<open>'stdio' | 'http'\<close> but filled from a request header by a cast, so
  it is a string here.
\<close>

record AuthenticationContext =
  azureDevOpsOrg :: "string option"
  mcpServerUrl :: "string option"
  mcpTransportType :: "string option"

text \<open>\<^verbatim>\<open>x || d\<close> for an optional string: \<^verbatim>\<open>undefined\<close> and the empty string are falsy.\<close>

definition or_else :: "string option \<Rightarrow> string \<Rightarrow> string" where
  "or_else x d = (case x of None \<Rightarrow> d | Some s \<Rightarrow> if s = [] then d else s)"

text \<open>\<^verbatim>\<open>!x\<close> for an optional string.\<close>

definition missing :: "string option \<Rightarrow> bool" where
  "missing x = (case x of None \<Rightarrow> True | Some s \<Rightarrow> s = [])"

text \<open>\<^verbatim>\<open>parts.join(sep)\<close>.\<close>

fun join :: "string \<Rightarrow> string list \<Rightarrow> string" where
  "join sep [] = []"
| "join sep [p] = p"
| "join sep (p # q # ps) = p @ sep @ join sep (q # ps)"

definition generateAuthCacheKey :: "AuthenticationContext \<Rightarrow> string" where
  "generateAuthCacheKey authContext =
     join ''|''
       [or_else (azureDevOpsOrg authContext) [],
        or_else (mcpTransportType authContext) ''stdio'',
        or_else (mcpServerUrl authContext) []]"

text \<open>
  \<^verbatim>\<open>extractAuthenticationMiddleware\<close> builds the context of every request: the
  organization is the environment variable \<^verbatim>\<open>AZURE_DEVOPS_ORG\<close> of the process, the
  URL and the transport type come from the request's headers. \<^verbatim>\<open>a || b\<close> on two
  optional strings is \<open>js_or\<close>.
\<close>

definition js_or :: "string option \<Rightarrow> string option \<Rightarrow> string option" where
  "js_or a b = (if missing a then b else a)"

definition extractAuthenticationMiddleware ::
  "(string \<Rightarrow> string option) \<Rightarrow> (string \<Rightarrow> string option) \<Rightarrow> AuthenticationContext" where
  "extractAuthenticationMiddleware env headers =
     \<lparr>azureDevOpsOrg = env ''AZURE_DEVOPS_ORG'',
      mcpServerUrl = js_or (headers ''x-mcp-server-url'') (headers ''mcp-server-url''),
      mcpTransportType =
        js_or (js_or (headers ''x-mcp-transport-type'') (headers ''mcp-transport-type''))
          (Some ''stdio'')\<rparr>"

record MCPTool =
  name :: string
  description :: "string option"
  inputSchema :: json

text \<open>
  The transport a creation builds: a subprocess whose argument vector carries the
  organization, or a streaming HTTP connection to a URL with the organization as a
  header. (The domain filters and the environment of the subprocess are not modelled.)
\<close>

datatype transport_spec =
    StdioClientTransport "string option"
  | StreamableHTTPClientTransport string "string option"

text \<open>
  A client instance. The SDK \<^verbatim>\<open>Client\<close> object is known by the number of its
  construction; \<open>lastUsed\<close> is a \<^verbatim>\<open>Date\<close>, in milliseconds.
\<close>

record MCPClientInstance =
  client :: nat
  transport :: transport_spec
  tools :: "MCPTool list"
  isInitialized :: bool
  lastUsed :: int

text \<open>
  What the manager does to the outside, in order: constructing a transport and its client,
  the SDK calls \<^verbatim>\<open>connect\<close>, \<^verbatim>\<open>listTools\<close>, \<^verbatim>\<open>close\<close> and \<^verbatim>\<open>callTool\<close> on a
  client, and the log line of a failed close of an unused client (by cache key).
\<close>

datatype effect =
    Construct nat transport_spec
  | Connect nat
  | ListTools nat
  | Close nat
  | CallTool nat string json
  | LogCloseError string

text \<open>
  The state of an \<^verbatim>\<open>MCPClientManager\<close>: the \<^verbatim>\<open>clients\<close> map (a JavaScript
  \<^verbatim>\<open>Map\<close>, which keeps insertion order), the number of clients constructed so far,
  and the effects so far, oldest first.
\<close>

record manager =
  clients :: "(string \<times> MCPClientInstance) list"
  created :: nat
  calls :: "effect list"

definition new_manager :: manager where
  "new_manager = \<lparr>clients = [], created = 0, calls = []\<rparr>"

text \<open>
  How the outside answers during one call of the manager: whether \<^verbatim>\<open>new URL(...)\<close>
  accepts the URL, and whether \<^verbatim>\<open>connect\<close>, \<^verbatim>\<open>listTools\<close> and \<^verbatim>\<open>callTool\<close>
  resolve or reject (with the message of the error). \<^verbatim>\<open>listTools\<close> may resolve with a
  response that has no \<^verbatim>\<open>tools\<close> member.
\<close>

record sdk_outcome =
  url_parses :: bool
  connect_result :: "string option"
  listTools_result :: "string + MCPTool list option"
  callTool_result :: "string + json"

text \<open>
  The errors thrown: \<^verbatim>\<open>'Missing required Azure DevOps organization'\<close>,
  \<^verbatim>\<open>'MCP server URL is required for HTTP transport'\<close>,
  \<^verbatim>\<open>'Authentication context is required ...'\<close>, the TypeError of \<^verbatim>\<open>new URL\<close>, and
  an error of the SDK, rethrown as it is.
\<close>

datatype error =
    MissingOrganization
  | MissingServerUrl
  | AuthContextRequired
  | InvalidUrl
  | SdkError string

definition log_effects :: "effect list \<Rightarrow> manager \<Rightarrow> manager" where
  "log_effects es m = m\<lparr>calls := calls m @ es\<rparr>"

definition loadToolsForClient ::
  "sdk_outcome \<Rightarrow> nat \<Rightarrow> manager \<Rightarrow> (error + MCPTool list) \<times> manager" where
  "loadToolsForClient sdk c m =
     (case listTools_result sdk of
        Inl msg \<Rightarrow> (Inl (SdkError msg), log_effects [ListTools c] m)
      | Inr toolsResponse \<Rightarrow>
          (Inr (case toolsResponse of None \<Rightarrow> [] | Some ts \<Rightarrow> ts), log_effects [ListTools c] m))"

text \<open>
  The \<^verbatim>\<open>try\<close>/\<^verbatim>\<open>catch\<close> that \<^verbatim>\<open>createHttpClient\<close> and \<^verbatim>\<open>createStdioClient\<close>
  both end with: connect, wait, load the tools, build the instance and cache it; on any
  error close the client (an error of \<^verbatim>\<open>close\<close> itself is ignored) and rethrow.
  \<open>now\<close> is the value of \<^verbatim>\<open>new Date()\<close>.
\<close>

definition connect_and_cache ::
  "sdk_outcome \<Rightarrow> int \<Rightarrow> string \<Rightarrow> nat \<Rightarrow> transport_spec \<Rightarrow> manager
     \<Rightarrow> (error + MCPClientInstance) \<times> manager" where
  "connect_and_cache sdk now cacheKey c tr m =
     (case connect_result sdk of
        Some msg \<Rightarrow> (Inl (SdkError msg), log_effects [Connect c, Close c] m)
      | None \<Rightarrow>
          (case loadToolsForClient sdk c (log_effects [Connect c] m) of
             (Inl e, m1) \<Rightarrow> (Inl e, log_effects [Close c] m1)
           | (Inr ts, m1) \<Rightarrow>
               (let clientInstance =
                      \<lparr>client = c, transport = tr, tools = ts, isInitialized = True, lastUsed = now\<rparr>
                in (Inr clientInstance,
                    m1\<lparr>clients := AList.update cacheKey clientInstance (clients m1)\<rparr>))))"

text \<open>\<^verbatim>\<open>new ...Transport(...)\<close> followed by \<^verbatim>\<open>new Client(...)\<close>.\<close>

definition construct :: "transport_spec \<Rightarrow> manager \<Rightarrow> manager" where
  "construct tr m = m\<lparr>created := Suc (created m), calls := calls m @ [Construct (created m) tr]\<rparr>"

definition createHttpClient ::
  "sdk_outcome \<Rightarrow> int \<Rightarrow> AuthenticationContext \<Rightarrow> string \<Rightarrow> manager
     \<Rightarrow> (error + MCPClientInstance) \<times> manager" where
  "createHttpClient sdk now authContext cacheKey m =
     (case mcpServerUrl authContext of
        None \<Rightarrow> (Inl MissingServerUrl, m)
      | Some url \<Rightarrow>
          if url = [] then (Inl MissingServerUrl, m)
          else if \<not> url_parses sdk then (Inl InvalidUrl, m)
          else
            (let tr = StreamableHTTPClientTransport url (azureDevOpsOrg authContext)
             in connect_and_cache sdk now cacheKey (created m) tr (construct tr m)))"

definition createStdioClient ::
  "sdk_outcome \<Rightarrow> int \<Rightarrow> AuthenticationContext \<Rightarrow> string \<Rightarrow> manager
     \<Rightarrow> (error + MCPClientInstance) \<times> manager" where
  "createStdioClient sdk now authContext cacheKey m =
     (let tr = StdioClientTransport (azureDevOpsOrg authContext)
      in connect_and_cache sdk now cacheKey (created m) tr (construct tr m))"

text \<open>The last statement of \<^verbatim>\<open>getOrCreateClient\<close>: the choice of the transport.\<close>

definition create ::
  "sdk_outcome \<Rightarrow> int \<Rightarrow> AuthenticationContext \<Rightarrow> string \<Rightarrow> manager
     \<Rightarrow> (error + MCPClientInstance) \<times> manager" where
  "create sdk now authContext cacheKey m =
     (if mcpTransportType authContext = Some ''http''
      then createHttpClient sdk now authContext cacheKey m
      else createStdioClient sdk now authContext cacheKey m)"

definition getOrCreateClient ::
  "sdk_outcome \<Rightarrow> int \<Rightarrow> AuthenticationContext \<Rightarrow> manager
     \<Rightarrow> (error + MCPClientInstance) \<times> manager" where
  "getOrCreateClient sdk now authContext m =
     (if missing (azureDevOpsOrg authContext) then (Inl MissingOrganization, m)
      else
        (let cacheKey = generateAuthCacheKey authContext
         in case map_of (clients m) cacheKey of
              None \<Rightarrow> create sdk now authContext cacheKey m
            | Some clientInstance \<Rightarrow>
                if isInitialized clientInstance
                then (Inr (clientInstance\<lparr>lastUsed := now\<rparr>),
                      m\<lparr>clients :=
                           AList.update cacheKey (clientInstance\<lparr>lastUsed := now\<rparr>) (clients m)\<rparr>)
                else create sdk now authContext cacheKey m))"

text \<open>\<^verbatim>\<open>arguments_ || {}\<close>.\<close>

definition or_empty_object :: "json option \<Rightarrow> json" where
  "or_empty_object a = (case a of None \<Rightarrow> JObj [] | Some j \<Rightarrow> if truthy j then j else JObj [])"

definition callTool ::
  "sdk_outcome \<Rightarrow> int \<Rightarrow> string \<Rightarrow> json option \<Rightarrow> AuthenticationContext option \<Rightarrow> manager
     \<Rightarrow> (error + json) \<times> manager" where
  "callTool sdk now toolName arguments authContext m =
     (case authContext of
        None \<Rightarrow> (Inl AuthContextRequired, m)
      | Some ctx \<Rightarrow>
          (case getOrCreateClient sdk now ctx m of
             (Inl e, m1) \<Rightarrow> (Inl e, m1)
           | (Inr clientInstance, m1) \<Rightarrow>
               (let m2 = log_effects
                           [CallTool (client clientInstance) toolName (or_empty_object arguments)] m1
                in case callTool_result sdk of
                     Inl msg \<Rightarrow> (Inl (SdkError msg), m2)
                   | Inr response \<Rightarrow> (Inr response, m2))))"

definition getTools :: "AuthenticationContext option \<Rightarrow> manager \<Rightarrow> MCPTool list" where
  "getTools authContext m =
     (case authContext of
        None \<Rightarrow> []
      | Some ctx \<Rightarrow>
          (case map_of (clients m) (generateAuthCacheKey ctx) of
             None \<Rightarrow> []
           | Some clientInstance \<Rightarrow> tools clientInstance))"

definition getTool :: "string \<Rightarrow> AuthenticationContext option \<Rightarrow> manager \<Rightarrow> MCPTool option" where
  "getTool toolName authContext m = find (\<lambda>tool. name tool = toolName) (getTools authContext m)"

definition isReady :: "AuthenticationContext option \<Rightarrow> manager \<Rightarrow> bool" where
  "isReady authContext m =
     (case authContext of
        None \<Rightarrow> False
      | Some ctx \<Rightarrow>
          (case map_of (clients m) (generateAuthCacheKey ctx) of
             None \<Rightarrow> False
           | Some clientInstance \<Rightarrow> isInitialized clientInstance))"

text \<open>
  The first loop of \<^verbatim>\<open>cleanupUnusedClients\<close>: over the entries in order, collect the
  key of each instance last used before the cut-off and close its client, logging a
  failed close. \<open>close_fails\<close> tells of which clients \<^verbatim>\<open>close\<close> rejects.
\<close>

fun close_unused ::
  "(nat \<Rightarrow> bool) \<Rightarrow> int \<Rightarrow> (string \<times> MCPClientInstance) list \<Rightarrow> string list \<times> effect list" where
  "close_unused close_fails cutoffTime [] = ([], [])"
| "close_unused close_fails cutoffTime ((key, clientInstance) # rest) =
     (let (keys, effs) = close_unused close_fails cutoffTime rest
      in if lastUsed clientInstance < cutoffTime
         then (key # keys,
               Close (client clientInstance)
                 # (if close_fails (client clientInstance) then [LogCloseError key] else []) @ effs)
         else (keys, effs))"

text \<open>
  \<^verbatim>\<open>cleanupUnusedClients(maxAgeMinutes)\<close>, for a whole number of minutes; \<open>now\<close> is
  \<^verbatim>\<open>Date.now()\<close>. The second loop deletes the collected keys.
\<close>

definition cleanupUnusedClients :: "(nat \<Rightarrow> bool) \<Rightarrow> int \<Rightarrow> int \<Rightarrow> manager \<Rightarrow> manager" where
  "cleanupUnusedClients close_fails now maxAgeMinutes m =
     (let cutoffTime = now - maxAgeMinutes * 60 * 1000;
          (keysToRemove, effs) = close_unused close_fails cutoffTime (clients m)
      in m\<lparr>clients := foldl (\<lambda>cs key. AList.delete key cs) (clients m) keysToRemove,
            calls := calls m @ effs\<rparr>)"

text \<open>\<^verbatim>\<open>cleanup()\<close>: close every client, then clear the map.\<close>

definition cleanup :: "manager \<Rightarrow> manager" where
  "cleanup m =
     m\<lparr>clients := [],
       calls := calls m @ map (\<lambda>(key, clientInstance). Close (client clientInstance)) (clients m)\<rparr>"


section \<open>Overlapping calls of \<^verbatim>\<open>getOrCreateClient\<close>\<close>

text \<open>
  \<^verbatim>\<open>getOrCreateClient\<close> is an \<^verbatim>\<open>async\<close> function on a single-threaded event loop:
  it runs without interruption from one \<^verbatim>\<open>await\<close> to the next, and other calls may
  run while it waits. A call in progress is a task, standing at one of its \<^verbatim>\<open>await\<close>s:
  for \<^verbatim>\<open>client.connect\<close>, for the stabilisation timer, for \<^verbatim>\<open>client.listTools\<close>,
  or for \<^verbatim>\<open>client.close\<close> in the \<^verbatim>\<open>catch\<close>; or not yet started; or settled with
  its result.
\<close>

datatype task =
    NotStarted AuthenticationContext
  | AwaitConnect string nat transport_spec
  | AwaitTimer string nat transport_spec
  | AwaitListTools string nat transport_spec
  | AwaitClose error nat
  | Settled "error + MCPClientInstance"

text \<open>
  The synchronous start of a creation, up to the first \<^verbatim>\<open>await\<close>: the URL check of
  \<^verbatim>\<open>createHttpClient\<close>, the construction of the transport and the client, and the
  call of \<^verbatim>\<open>connect\<close>.
\<close>

definition start_create ::
  "sdk_outcome \<Rightarrow> AuthenticationContext \<Rightarrow> string \<Rightarrow> manager \<Rightarrow> task \<times> manager" where
  "start_create sdk authContext cacheKey m =
     (if mcpTransportType authContext = Some ''http'' then
        (case mcpServerUrl authContext of
           None \<Rightarrow> (Settled (Inl MissingServerUrl), m)
         | Some url \<Rightarrow>
             if url = [] then (Settled (Inl MissingServerUrl), m)
             else if \<not> url_parses sdk then (Settled (Inl InvalidUrl), m)
             else
               (let tr = StreamableHTTPClientTransport url (azureDevOpsOrg authContext)
                in (AwaitConnect cacheKey (created m) tr,
                    log_effects [Connect (created m)] (construct tr m))))
      else
        (let tr = StdioClientTransport (azureDevOpsOrg authContext)
         in (AwaitConnect cacheKey (created m) tr,
             log_effects [Connect (created m)] (construct tr m))))"

text \<open>One turn of a task: from where it stands to its next \<^verbatim>\<open>await\<close> or its result.\<close>

fun resume :: "sdk_outcome \<Rightarrow> int \<Rightarrow> task \<Rightarrow> manager \<Rightarrow> task \<times> manager" where
  "resume sdk now (NotStarted authContext) m =
     (if missing (azureDevOpsOrg authContext) then (Settled (Inl MissingOrganization), m)
      else
        (let cacheKey = generateAuthCacheKey authContext
         in case map_of (clients m) cacheKey of
              None \<Rightarrow> start_create sdk authContext cacheKey m
            | Some clientInstance \<Rightarrow>
                if isInitialized clientInstance
                then (Settled (Inr (clientInstance\<lparr>lastUsed := now\<rparr>)),
                      m\<lparr>clients :=
                           AList.update cacheKey (clientInstance\<lparr>lastUsed := now\<rparr>) (clients m)\<rparr>)
                else start_create sdk authContext cacheKey m))"
| "resume sdk now (AwaitConnect cacheKey c tr) m =
     (case connect_result sdk of
        Some msg \<Rightarrow> (AwaitClose (SdkError msg) c, log_effects [Close c] m)
      | None \<Rightarrow> (AwaitTimer cacheKey c tr, m))"
| "resume sdk now (AwaitTimer cacheKey c tr) m =
     (AwaitListTools cacheKey c tr, log_effects [ListTools c] m)"
| "resume sdk now (AwaitListTools cacheKey c tr) m =
     (case listTools_result sdk of
        Inl msg \<Rightarrow> (AwaitClose (SdkError msg) c, log_effects [Close c] m)
      | Inr toolsResponse \<Rightarrow>
          (let clientInstance =
                 \<lparr>client = c, transport = tr,
                  tools = (case toolsResponse of None \<Rightarrow> [] | Some ts \<Rightarrow> ts),
                  isInitialized = True, lastUsed = now\<rparr>
           in (Settled (Inr clientInstance),
               m\<lparr>clients := AList.update cacheKey clientInstance (clients m)\<rparr>)))"
| "resume sdk now (AwaitClose e c) m = (Settled (Inl e), m)"
| "resume sdk now (Settled r) m = (Settled r, m)"

text \<open>
  The calls in progress and the manager they share. A schedule names, turn by turn, the
  task the event loop resumes and the time of the turn; \<open>sdk i\<close> is how the outside
  answers task \<open>i\<close>.
\<close>

definition turn ::
  "(nat \<Rightarrow> sdk_outcome) \<Rightarrow> task list \<times> manager \<Rightarrow> nat \<times> int \<Rightarrow> task list \<times> manager" where
  "turn sdk s it =
     (case (s, it) of
        ((ts, m), (i, now)) \<Rightarrow>
          if i < length ts
          then (case resume (sdk i) now (ts ! i) m of (t, m1) \<Rightarrow> (ts[i := t], m1))
          else (ts, m))"

definition run_schedule ::
  "(nat \<Rightarrow> sdk_outcome) \<Rightarrow> (nat \<times> int) list \<Rightarrow> task list \<times> manager \<Rightarrow> task list \<times> manager" where
  "run_schedule sdk schedule s = foldl (turn sdk) s schedule"

text \<open>A call running alone: at most five turns take it to its result.\<close>

definition run_alone ::
  "sdk_outcome \<Rightarrow> int \<Rightarrow> AuthenticationContext \<Rightarrow> manager \<Rightarrow> task list \<times> manager" where
  "run_alone sdk now authContext m =
     run_schedule (\<lambda>i. sdk) (replicate 5 (0, now)) ([NotStarted authContext], m)"


section \<open>Invariants of the pool map\<close>

text \<open>
  The map has one entry per key, and every cached instance is initialized (an instance
  is only ever stored with \<^verbatim>\<open>isInitialized: true\<close>, and nothing resets the flag).
\<close>

definition pool_inv :: "manager \<Rightarrow> bool" where
  "pool_inv m = (distinct (map fst (clients m)) \<and> list_all (\<lambda>kc. isInitialized (snd kc)) (clients m))"

text \<open>
  The states of a manager that serves one organization: every context it is called with
  carries the organization \<open>org\<close>, as the contexts of the middleware do. A state is the
  list of the calls of \<^verbatim>\<open>getOrCreateClient\<close> in progress and the manager. From the new
  manager, a call arrives, the event loop resumes a call, \<^verbatim>\<open>getOrCreateClient\<close> or
  \<^verbatim>\<open>callTool\<close> runs to its end, or the pool is swept or shut down.
\<close>

inductive reachable :: "string option \<Rightarrow> task list \<times> manager \<Rightarrow> bool"
  for org :: "string option" where
    initial: "reachable org ([], new_manager)"
  | request:
      "reachable org (ts, m) \<Longrightarrow> azureDevOpsOrg authContext = org \<Longrightarrow>
       reachable org (ts @ [NotStarted authContext], m)"
  | step: "reachable org s \<Longrightarrow> reachable org (turn sdk s it)"
  | get_or_create:
      "reachable org (ts, m) \<Longrightarrow> azureDevOpsOrg authContext = org \<Longrightarrow>
       reachable org (ts, snd (getOrCreateClient sdk now authContext m))"
  | call_tool:
      "reachable org (ts, m) \<Longrightarrow> azureDevOpsOrg authContext = org \<Longrightarrow>
       reachable org (ts, snd (callTool sdk now toolName arguments (Some authContext) m))"
  | sweep:
      "reachable org (ts, m) \<Longrightarrow>
       reachable org (ts, cleanupUnusedClients close_fails now maxAgeMinutes m)"
  | shutdown: "reachable org (ts, m) \<Longrightarrow> reachable org (ts, cleanup m)"

text \<open>
  What these states keep: nothing is cached, and no creation is in progress, under the key
  of the organization's HTTP context without a URL; and every call not yet started carries
  the organization.
\<close>

fun task_ok :: "string option \<Rightarrow> task \<Rightarrow> bool" where
  "task_ok org (NotStarted authContext) = (azureDevOpsOrg authContext = org)"
| "task_ok org (AwaitConnect cacheKey c tr) = (cacheKey \<noteq> or_else org [] @ ''|http|'')"
| "task_ok org (AwaitTimer cacheKey c tr) = (cacheKey \<noteq> or_else org [] @ ''|http|'')"
| "task_ok org (AwaitListTools cacheKey c tr) = (cacheKey \<noteq> or_else org [] @ ''|http|'')"
| "task_ok org (AwaitClose e c) = True"
| "task_ok org (Settled r) = True"

definition one_org :: "string option \<Rightarrow> task list \<times> manager \<Rightarrow> bool" where
  "one_org org s =
     (or_else org [] @ ''|http|'' \<notin> fst ` set (clients (snd s)) \<and> list_all (task_ok org) (fst s))"


section \<open>Sample inputs\<close>

text \<open>A table standing for \<^verbatim>\<open>JSON.parse\<close> on the texts of the examples.\<close>

definition sample_texts :: "(string \<times> json) list" where
  "sample_texts =
    [(''{\"jsonrpc\":\"2.0\",\"id\":7,\"method\":\"tools/list\"}'',
        JObj [(''jsonrpc'', JStr ''2.0''), (''id'', JNum (Finite 7)), (''method'', JStr ''tools/list'')]),
     (''{\"jsonrpc\":\"2.0\",\"method\":\"notify\"}'',
        JObj [(''jsonrpc'', JStr ''2.0''), (''method'', JStr ''notify'')]),
     (''{\"jsonrpc\":\"2.0\",\"id\":null,\"method\":\"ping\"}'',
        JObj [(''jsonrpc'', JStr ''2.0''), (''id'', JNull), (''method'', JStr ''ping'')]),
     (''{\"jsonrpc\":\"2.0\",\"result\":{\"tools\":[]}}'',
        JObj [(''jsonrpc'', JStr ''2.0''), (''result'', JObj [(''tools'', JArr [])])]),
     (''{\"jsonrpc\":null,\"id\":99,\"result\":1}'',
        JObj [(''jsonrpc'', JNull), (''id'', JNum (Finite 99)), (''result'', JNum (Finite 1))]),
     (''{\"jsonrpc\":1e400,\"id\":99,\"result\":1}'',
        JObj [(''jsonrpc'', JNum Infinity), (''id'', JNum (Finite 99)),
              (''result'', JNum (Finite 1))]),
     (''{\"jsonrpc\":\"2.0\",\"id\":1e400,\"method\":\"ping\"}'',
        JObj [(''jsonrpc'', JStr ''2.0''), (''id'', JNum Infinity), (''method'', JStr ''ping'')]),
     (''[1]'', JArr [JNum (Finite 1)]),
     (''null'', JNull)]"

definition sample_parse :: "string \<Rightarrow> string + json" where
  "sample_parse s =
     (case map_of sample_texts s of
        Some j \<Rightarrow> Inr j
      | None \<Rightarrow> Inl ''Unexpected token'')"

text \<open>
  \<^verbatim>\<open>String.prototype.trim\<close> as it works on ASCII text: it strips tab, line feed,
  vertical tab, form feed, carriage return and space from both ends.
\<close>

definition is_space :: "char \<Rightarrow> bool" where
  "is_space c = (c = CHR 0x09 \<or> c = CHR 0x0A \<or> c = CHR 0x0B \<or> c = CHR 0x0C
                 \<or> c = CHR 0x0D \<or> c = CHR 0x20)"

definition ascii_trim :: "string \<Rightarrow> string" where
  "ascii_trim s = rev (dropWhile is_space (rev (dropWhile is_space s)))"

definition sample_tool :: MCPTool where
  "sample_tool = \<lparr>name = ''wit_get_work_item'', description = None, inputSchema = JObj []\<rparr>"

definition ok_sdk :: sdk_outcome where
  "ok_sdk = \<lparr>url_parses = True, connect_result = None,
             listTools_result = Inr (Some [sample_tool]),
             callTool_result = Inr (JObj [(''content'', JArr [])])\<rparr>"

definition acme :: "string option \<Rightarrow> string option \<Rightarrow> AuthenticationContext" where
  "acme ty url = \<lparr>azureDevOpsOrg = Some ''acme'', mcpServerUrl = url, mcpTransportType = ty\<rparr>"

definition refusing_sdk :: sdk_outcome where
  "refusing_sdk = ok_sdk\<lparr>connect_result := Some ''connect ECONNREFUSED''\<rparr>"

definition acme_instance :: "nat \<Rightarrow> int \<Rightarrow> MCPClientInstance" where
  "acme_instance c t =
     \<lparr>client = c, transport = StdioClientTransport (Some ''acme''), tools = [sample_tool],
      isInitialized = True, lastUsed = t\<rparr>"


section \<open>Properties of the relay\<close>

lemma on_reply_notification: "on_reply parse trim None r = []"
  by (simp add: on_reply_def split: reply.split sum.split)

lemma sendToServer_silent: "(\<And>r. callback r = []) \<Longrightarrow> sendToServer events callback = []"
  by (induction events) (simp_all add: sendToServer_def)

lemma sendToServer_single: "sendToServer [ev] callback = callback (handler ev)"
  by (simp add: sendToServer_def)

lemma stringify_errorResponse:
  "stringify (errorResponse rid code msg) = errorResponse (stringify rid) code msg"
  by (simp add: errorResponse_def)



lemma on_reply_request_single: "\<exists>line. on_reply parse trim (Some rid) r = [line]"
  by (simp add: on_reply_def written_def split: reply.split sum.split)

lemma processMessage_request:
  assumes "parse t = Inr m" and "get_member m ''id'' = Inr (Some rid)" and "backend m = [ev]"
  shows "processMessage parse trim backend t = ([m], on_reply parse trim (Some rid) (handler ev))"
  using assms by (simp add: processMessage_def sendToServer_single)

text \<open>
  One call of the callback for a request writes one line. Called with an error, it writes
  the error \<open>-32603\<close> with the request's id (as printed) and the message of the error;
  with a blank body, the error \<open>-32603\<close> with the message
  \<^verbatim>\<open>Empty response from server\<close>; with a body that is not blank and does not parse, the
  error \<open>-32700\<close>. A line that \<^verbatim>\<open>JSON.parse\<close> rejects is not handed on and gives the
  error \<open>-32700\<close> with \<^verbatim>\<open>id: null\<close>. The three kinds of error line differ, whatever
  ids and details they carry.
\<close>

lemma on_reply_Failed:
  "on_reply parse trim (Some rid) (Failed msg) = [errorResponse (stringify rid) (- 32603) msg]"
  by (simp add: on_reply_def written_def stringify_errorResponse)

lemma on_reply_blank:
  "blank trim body \<Longrightarrow>
   on_reply parse trim (Some rid) (Body body)
     = [errorResponse (stringify rid) (- 32603) ''Empty response from server'']"
  by (simp add: on_reply_def written_def stringify_errorResponse)

lemma on_reply_unparsable:
  "\<not> blank trim body \<Longrightarrow> parse body = Inl e \<Longrightarrow>
   on_reply parse trim (Some rid) (Body body)
     = [errorResponse (stringify rid) (- 32700) (''Invalid JSON response: '' @ e)]"
  by (simp add: on_reply_def written_def stringify_errorResponse)

lemma on_reply_parsed:
  "\<not> blank trim body \<Longrightarrow> parse body = Inr response \<Longrightarrow>
   on_reply parse trim (Some rid) (Body body) =
     (case stamp rid response of
        Inl e \<Rightarrow> [errorResponse (stringify rid) (- 32700) (''Invalid JSON response: '' @ e)]
      | Inr out \<Rightarrow> [stringify out])"
  by (simp add: on_reply_def written_def stringify_errorResponse split: sum.split)

lemma processMessage_rejected_line:
  "parse t = Inl e \<Longrightarrow>
   processMessage parse trim backend t
     = ([], [errorResponse JNull (- 32700) (''Invalid JSON request: '' @ e)])"
  by (simp add: processMessage_def written_def stringify_errorResponse)

lemma errorResponse_inject:
  "errorResponse i c m = errorResponse i' c' m' \<longleftrightarrow> i = i' \<and> c = c' \<and> m = m'"
  by (auto simp: errorResponse_def)

lemma error_lines_differ:
  "errorResponse JNull (- 32700) (''Invalid JSON request: '' @ e)
     \<noteq> errorResponse rid (- 32700) (''Invalid JSON response: '' @ e')"
  "errorResponse rid' (- 32603) msg
     \<noteq> errorResponse JNull (- 32700) (''Invalid JSON request: '' @ e)"
  "errorResponse rid' (- 32603) msg
     \<noteq> errorResponse rid (- 32700) (''Invalid JSON response: '' @ e')"
  by (simp_all add: errorResponse_inject)

text \<open>
  Remarks on the cases the claims leave aside. The text \<^verbatim>\<open>null\<close> parses, but reading
  \<^verbatim>\<open>message.id\<close> throws inside the outer \<^verbatim>\<open>try\<close>: it is answered like a rejected line.
  A body that parses to \<^verbatim>\<open>null\<close> makes \<^verbatim>\<open>response.jsonrpc\<close> throw inside the inner
  \<^verbatim>\<open>try\<close>: it is answered like a rejected body. A body that parses to an array or a
  primitive is written back as it is printed, without the request's id.
\<close>

lemma processMessage_null_message:
  "parse t = Inr JNull \<Longrightarrow> get_member JNull ''id'' = Inl e \<Longrightarrow>
   processMessage parse trim backend t
     = ([], [errorResponse JNull (- 32700) (''Invalid JSON request: '' @ e)])"
  by (auto simp: processMessage_def written_def stringify_errorResponse)

lemma on_reply_null_body:
  "\<not> blank trim body \<Longrightarrow> parse body = Inr JNull \<Longrightarrow> get_member JNull ''jsonrpc'' = Inl e \<Longrightarrow>
   on_reply parse trim (Some rid) (Body body)
     = [errorResponse (stringify rid) (- 32700) (''Invalid JSON response: '' @ e)]"
  by (auto simp: on_reply_parsed stamp_def)

lemma on_reply_not_an_object:
  "\<not> blank trim body \<Longrightarrow> parse body = Inr v \<Longrightarrow>
   v = JArr xs \<or> v = JBool b \<or> v = JNum n \<or> v = JStr s \<Longrightarrow>
   on_reply parse trim (Some rid) (Body body) = [stringify v]"
  by (auto simp: on_reply_parsed stamp_def)

text \<open>
  The callback has no guard against a second call: it answers every event of the
  request, so a request whose POST reports two events is answered twice, and one whose
  POST reports none is not answered.
\<close>

lemma one_line_per_event:
  "parse t = Inr m \<Longrightarrow> get_member m ''id'' = Inr (Some rid) \<Longrightarrow>
   processMessage parse trim backend t
     = ([m], concat (map (\<lambda>ev. on_reply parse trim (Some rid) (handler ev)) (backend m)))"
  by (simp add: processMessage_def sendToServer_def)

text \<open>
  Claim C3 fails on the code. Request 7 is handed to \<^verbatim>\<open>sendToServer\<close> and the backend
  does not answer within the timeout: the relay writes two error lines for id 7, one with
  the message \<^verbatim>\<open>Timeout\<close> and one with the message of the destroyed socket. When the
  backend breaks the connection after the response has begun, the relay writes no line for
  request 7.
\<close>

theorem timeout_writes_two_lines:
  "sample_parse ''{\"jsonrpc\":\"2.0\",\"id\":7,\"method\":\"tools/list\"}''
     = Inr (JObj [(''jsonrpc'', JStr ''2.0''), (''id'', JNum (Finite 7)),
                  (''method'', JStr ''tools/list'')])
   \<and> processMessage sample_parse ascii_trim (\<lambda>m. timed_out)
        ''{\"jsonrpc\":\"2.0\",\"id\":7,\"method\":\"tools/list\"}''
     = ([JObj [(''jsonrpc'', JStr ''2.0''), (''id'', JNum (Finite 7)),
               (''method'', JStr ''tools/list'')]],
        [errorResponse (JNum (Finite 7)) (- 32603) ''Timeout'',
         errorResponse (JNum (Finite 7)) (- 32603) ''socket hang up''])
   \<and> processMessage sample_parse ascii_trim (\<lambda>m. aborted)
        ''{\"jsonrpc\":\"2.0\",\"id\":7,\"method\":\"tools/list\"}''
     = ([JObj [(''jsonrpc'', JStr ''2.0''), (''id'', JNum (Finite 7)),
               (''method'', JStr ''tools/list'')]],
        [])"
  by (simp add: sample_parse_def sample_texts_def processMessage_def sendToServer_def
      timed_out_def aborted_def on_reply_def written_def stringify_errorResponse)

text \<open>
  Claim C2. A message whose \<^verbatim>\<open>id\<close> is \<^verbatim>\<open>undefined\<close> is posted and nothing is ever
  written for it, whatever the events of the POST are (an error, a timeout, a blank body,
  a body that does not parse, a body that parses; none, one or several of them). A message
  whose \<^verbatim>\<open>id\<close> is \<^verbatim>\<open>null\<close> is a request: one event of the POST gives one line,
  and a failed POST gives the error \<open>-32603\<close> with \<^verbatim>\<open>id: null\<close>.
\<close>

theorem notification_writes_nothing:
  "(parse t = Inr m \<and> get_member m ''id'' = Inr None
      \<longrightarrow> processMessage parse trim backend t = ([m], []))
   \<and> (parse t' = Inr m' \<and> get_member m' ''id'' = Inr (Some JNull) \<and> backend' m' = [ev]
      \<longrightarrow> (\<exists>line. processMessage parse trim backend' t' = ([m'], [line])))
   \<and> (parse t' = Inr m' \<and> get_member m' ''id'' = Inr (Some JNull)
        \<and> backend' m' = [RequestError msg]
      \<longrightarrow> processMessage parse trim backend' t' = ([m'], [errorResponse JNull (- 32603) msg]))"
proof (intro conjI impI)
  assume "parse t = Inr m \<and> get_member m ''id'' = Inr None"
  then show "processMessage parse trim backend t = ([m], [])"
    by (simp add: processMessage_def sendToServer_silent on_reply_notification)
next
  assume a: "parse t' = Inr m' \<and> get_member m' ''id'' = Inr (Some JNull) \<and> backend' m' = [ev]"
  then have "processMessage parse trim backend' t'
               = ([m'], on_reply parse trim (Some JNull) (handler ev))"
    by (simp add: processMessage_request)
  then show "\<exists>line. processMessage parse trim backend' t' = ([m'], [line])"
    using on_reply_request_single [of parse trim JNull "handler ev"] by auto
next
  assume "parse t' = Inr m' \<and> get_member m' ''id'' = Inr (Some JNull)
            \<and> backend' m' = [RequestError msg]"
  then show "processMessage parse trim backend' t' = ([m'], [errorResponse JNull (- 32603) msg])"
    by (simp add: processMessage_request on_reply_Failed)
qed

text \<open>A notification answered and then timed out; a request with \<^verbatim>\<open>id: null\<close> refused.\<close>

theorem notification_writes_nothing_witness:
  "sample_parse ''{\"jsonrpc\":\"2.0\",\"method\":\"notify\"}''
      = Inr (JObj [(''jsonrpc'', JStr ''2.0''), (''method'', JStr ''notify'')])
   \<and> get_member (JObj [(''jsonrpc'', JStr ''2.0''), (''method'', JStr ''notify'')]) ''id'' = Inr None
   \<and> processMessage sample_parse ascii_trim
        (\<lambda>m. [ResponseEnd [''{\"jsonrpc\":\"2.0\",'', ''\"result\":{\"tools\":[]}}''], Timeout])
        ''{\"jsonrpc\":\"2.0\",\"method\":\"notify\"}''
      = ([JObj [(''jsonrpc'', JStr ''2.0''), (''method'', JStr ''notify'')]], [])
   \<and> sample_parse ''{\"jsonrpc\":\"2.0\",\"id\":null,\"method\":\"ping\"}''
      = Inr (JObj [(''jsonrpc'', JStr ''2.0''), (''id'', JNull), (''method'', JStr ''ping'')])
   \<and> get_member (JObj [(''jsonrpc'', JStr ''2.0''), (''id'', JNull), (''method'', JStr ''ping'')]) ''id''
      = Inr (Some JNull)
   \<and> processMessage sample_parse ascii_trim (\<lambda>m. [RequestError ''connect ECONNREFUSED''])
        ''{\"jsonrpc\":\"2.0\",\"id\":null,\"method\":\"ping\"}''
      = ([JObj [(''jsonrpc'', JStr ''2.0''), (''id'', JNull), (''method'', JStr ''ping'')]],
         [errorResponse JNull (- 32603) ''connect ECONNREFUSED''])"
  using notification_writes_nothing
    [where parse = sample_parse and trim = ascii_trim
       and t = "''{\"jsonrpc\":\"2.0\",\"method\":\"notify\"}''"
       and m = "JObj [(''jsonrpc'', JStr ''2.0''), (''method'', JStr ''notify'')]"
       and backend = "\<lambda>m. [ResponseEnd [''{\"jsonrpc\":\"2.0\",'', ''\"result\":{\"tools\":[]}}''],
                          Timeout]"
       and t' = "''{\"jsonrpc\":\"2.0\",\"id\":null,\"method\":\"ping\"}''"
       and m' = "JObj [(''jsonrpc'', JStr ''2.0''), (''id'', JNull), (''method'', JStr ''ping'')]"
       and backend' = "\<lambda>m. [RequestError ''connect ECONNREFUSED'']"
       and ev = "RequestError ''connect ECONNREFUSED''" and msg = "''connect ECONNREFUSED''"]
  by (simp add: sample_parse_def sample_texts_def)






section \<open>Properties of the pool\<close>

lemma connect_and_cache_ok:
  assumes "connect_result sdk = None" and "listTools_result sdk = Inr r"
  shows "connect_and_cache sdk now cacheKey c tr m =
     (Inr \<lparr>client = c, transport = tr, tools = (case r of None \<Rightarrow> [] | Some ts \<Rightarrow> ts),
           isInitialized = True, lastUsed = now\<rparr>,
      m\<lparr>clients := AList.update cacheKey
             \<lparr>client = c, transport = tr, tools = (case r of None \<Rightarrow> [] | Some ts \<Rightarrow> ts),
              isInitialized = True, lastUsed = now\<rparr> (clients m),
        calls := calls m @ [Connect c, ListTools c]\<rparr>)"
  using assms by (simp add: connect_and_cache_def loadToolsForClient_def log_effects_def Let_def)

lemma connect_and_cache_connect_fails:
  assumes "connect_result sdk = Some msg"
  shows "connect_and_cache sdk now cacheKey c tr m =
     (Inl (SdkError msg), m\<lparr>calls := calls m @ [Connect c, Close c]\<rparr>)"
  using assms by (simp add: connect_and_cache_def log_effects_def)

lemma connect_and_cache_list_fails:
  assumes "connect_result sdk = None" and "listTools_result sdk = Inl msg"
  shows "connect_and_cache sdk now cacheKey c tr m =
     (Inl (SdkError msg), m\<lparr>calls := calls m @ [Connect c, ListTools c, Close c]\<rparr>)"
  using assms by (simp add: connect_and_cache_def loadToolsForClient_def log_effects_def)

lemma connect_and_cache_Inr:
  assumes "connect_and_cache sdk now cacheKey c tr m = (Inr inst, m1)"
  shows "map_of (clients m1) cacheKey = Some inst \<and> isInitialized inst \<and> lastUsed inst = now"
  using assms
  by (auto simp: connect_and_cache_def loadToolsForClient_def log_effects_def update_conv' Let_def
      split: option.splits sum.splits)

lemma create_Inr:
  assumes "create sdk now ctx cacheKey m = (Inr inst, m1)"
  shows "map_of (clients m1) cacheKey = Some inst \<and> isInitialized inst \<and> lastUsed inst = now"
  using assms connect_and_cache_Inr
  by (auto simp: create_def createHttpClient_def createStdioClient_def Let_def
      split: option.splits if_splits)

lemma getOrCreateClient_hit:
  assumes "\<not> missing (azureDevOpsOrg ctx)"
    and "map_of (clients m) (generateAuthCacheKey ctx) = Some inst"
    and "isInitialized inst"
  shows "getOrCreateClient sdk now ctx m =
     (Inr (inst\<lparr>lastUsed := now\<rparr>),
      m\<lparr>clients := AList.update (generateAuthCacheKey ctx) (inst\<lparr>lastUsed := now\<rparr>) (clients m)\<rparr>)"
  using assms by (simp add: getOrCreateClient_def)

lemma getOrCreateClient_miss:
  assumes "\<not> missing (azureDevOpsOrg ctx)"
    and "\<not> isReady (Some ctx) m"
  shows "getOrCreateClient sdk now ctx m = create sdk now ctx (generateAuthCacheKey ctx) m"
  using assms by (simp add: getOrCreateClient_def isReady_def split: option.splits)

lemma getOrCreateClient_Inr:
  assumes "getOrCreateClient sdk now ctx m = (Inr inst, m1)"
  shows "map_of (clients m1) (generateAuthCacheKey ctx) = Some inst
         \<and> isInitialized inst \<and> lastUsed inst = now"
  using assms create_Inr
  by (auto simp: getOrCreateClient_def Let_def update_conv' split: option.splits if_splits)

text \<open>
  Claim C6. When a call of \<^verbatim>\<open>getOrCreateClient\<close> has returned an instance, the next
  call with a context of the same cache key (and an organization, without which the call
  throws before it looks at the cache) returns the same instance: the same client, tools
  and transport, only \<open>lastUsed\<close> set to the time of the call. It makes no SDK call and
  constructs nothing, whatever the outside would have answered, and the instance of the
  map carries the new \<open>lastUsed\<close>. The first call has stamped its own time as well.
\<close>

theorem second_getOrCreate_returns_cached:
  assumes first: "getOrCreateClient sdk1 t1 ctx1 m = (Inr inst, m1)"
    and key: "generateAuthCacheKey ctx2 = generateAuthCacheKey ctx1"
    and org: "\<not> missing (azureDevOpsOrg ctx2)"
  shows "\<exists>inst2 m2. getOrCreateClient sdk2 t2 ctx2 m1 = (Inr inst2, m2)
           \<and> inst2 = inst\<lparr>lastUsed := t2\<rparr>
           \<and> client inst2 = client inst \<and> tools inst2 = tools inst
           \<and> calls m2 = calls m1 \<and> created m2 = created m1
           \<and> map_of (clients m2) (generateAuthCacheKey ctx1) = Some inst2
           \<and> lastUsed inst = t1 \<and> lastUsed inst2 = t2"
proof -
  from first have c: "map_of (clients m1) (generateAuthCacheKey ctx2) = Some inst"
    and i: "isInitialized inst" and l: "lastUsed inst = t1"
    using getOrCreateClient_Inr [of sdk1 t1 ctx1 m inst m1] key by simp_all
  show ?thesis
    using getOrCreateClient_hit [OF org c i, of sdk2 t2] key l
    by (simp add: update_conv')
qed

lemma key_absent_stdio:
  assumes "azureDevOpsOrg a = azureDevOpsOrg b" and "mcpServerUrl a = mcpServerUrl b"
    and "mcpTransportType a = None" and "mcpTransportType b = Some ''stdio''"
  shows "generateAuthCacheKey a = generateAuthCacheKey b"
  using assms by (simp add: generateAuthCacheKey_def or_else_def missing_def)

text \<open>
  Claim C10. Two contexts with the same organization and server URL, one without a
  transport type and one with \<^verbatim>\<open>'stdio'\<close>, have the same cache key, character for
  character; so once either has obtained an instance, a call with the other returns that
  instance from the cache.
\<close>

theorem absent_transport_type_is_stdio:
  assumes "azureDevOpsOrg a = azureDevOpsOrg b" and "mcpServerUrl a = mcpServerUrl b"
    and "mcpTransportType a = None" and "mcpTransportType b = Some ''stdio''"
  shows "generateAuthCacheKey a = generateAuthCacheKey b
    \<and> (getOrCreateClient sdk1 t1 a m = (Inr inst, m1) \<longrightarrow>
         getOrCreateClient sdk2 t2 b m1 =
           (Inr (inst\<lparr>lastUsed := t2\<rparr>),
            m1\<lparr>clients := AList.update (generateAuthCacheKey a) (inst\<lparr>lastUsed := t2\<rparr>) (clients m1)\<rparr>))
    \<and> (getOrCreateClient sdk1 t1 b m = (Inr inst, m1) \<longrightarrow>
         getOrCreateClient sdk2 t2 a m1 =
           (Inr (inst\<lparr>lastUsed := t2\<rparr>),
            m1\<lparr>clients := AList.update (generateAuthCacheKey a) (inst\<lparr>lastUsed := t2\<rparr>) (clients m1)\<rparr>))"
proof (intro conjI impI)
  show k: "generateAuthCacheKey a = generateAuthCacheKey b"
    using assms by (rule key_absent_stdio)
  {
    assume first: "getOrCreateClient sdk1 t1 a m = (Inr inst, m1)"
    then have orga: "\<not> missing (azureDevOpsOrg a)"
      by (auto simp: getOrCreateClient_def split: if_splits)
    then have orgb: "\<not> missing (azureDevOpsOrg b)"
      using assms(1) by simp
    from first have "map_of (clients m1) (generateAuthCacheKey b) = Some inst" "isInitialized inst"
      using getOrCreateClient_Inr [of sdk1 t1 a m inst m1] k by simp_all
    with orgb show "getOrCreateClient sdk2 t2 b m1 =
           (Inr (inst\<lparr>lastUsed := t2\<rparr>),
            m1\<lparr>clients := AList.update (generateAuthCacheKey a) (inst\<lparr>lastUsed := t2\<rparr>) (clients m1)\<rparr>)"
      using getOrCreateClient_hit [of b m1 inst sdk2 t2] k by simp
  }
  {
    assume first: "getOrCreateClient sdk1 t1 b m = (Inr inst, m1)"
    then have orgb: "\<not> missing (azureDevOpsOrg b)"
      by (auto simp: getOrCreateClient_def split: if_splits)
    then have orga: "\<not> missing (azureDevOpsOrg a)"
      using assms(1) by simp
    from first have "map_of (clients m1) (generateAuthCacheKey a) = Some inst" "isInitialized inst"
      using getOrCreateClient_Inr [of sdk1 t1 b m inst m1] k by simp_all
    with orga show "getOrCreateClient sdk2 t2 a m1 =
           (Inr (inst\<lparr>lastUsed := t2\<rparr>),
            m1\<lparr>clients := AList.update (generateAuthCacheKey a) (inst\<lparr>lastUsed := t2\<rparr>) (clients m1)\<rparr>)"
      using getOrCreateClient_hit [of a m1 inst sdk2 t2] by simp
  }
qed

lemma create_fails:
  assumes url: "mcpTransportType ctx = Some ''http'' \<longrightarrow>
                  \<not> missing (mcpServerUrl ctx) \<and> url_parses sdk"
    and fail: "connect_result sdk = Some msg
               \<or> (connect_result sdk = None \<and> listTools_result sdk = Inl msg)"
  shows "\<exists>tr es. (es = [] \<or> es = [ListTools (created m)])
           \<and> create sdk now ctx cacheKey m =
           (Inl (SdkError msg),
            m\<lparr>created := Suc (created m),
              calls := calls m @ Construct (created m) tr # Connect (created m) # es
                         @ [Close (created m)]\<rparr>)"
proof (cases "mcpTransportType ctx = Some ''http''")
  case True
  with url obtain u where u: "mcpServerUrl ctx = Some u" "u \<noteq> []" "url_parses sdk"
    by (auto simp: or_else_def missing_def split: option.splits if_splits)
  let ?tr = "StreamableHTTPClientTransport u (azureDevOpsOrg ctx)"
  from fail show ?thesis
  proof
    assume "connect_result sdk = Some msg"
    then have "create sdk now ctx cacheKey m =
           (Inl (SdkError msg),
            m\<lparr>created := Suc (created m),
              calls := calls m @ Construct (created m) ?tr # Connect (created m) # []
                         @ [Close (created m)]\<rparr>)"
      using True u
      by (simp add: create_def createHttpClient_def connect_and_cache_connect_fails construct_def)
    then show ?thesis by blast
  next
    assume "connect_result sdk = None \<and> listTools_result sdk = Inl msg"
    then have "create sdk now ctx cacheKey m =
           (Inl (SdkError msg),
            m\<lparr>created := Suc (created m),
              calls := calls m @ Construct (created m) ?tr # Connect (created m) # [ListTools (created m)]
                         @ [Close (created m)]\<rparr>)"
      using True u
      by (simp add: create_def createHttpClient_def connect_and_cache_list_fails construct_def)
    then show ?thesis by blast
  qed
next
  case False
  let ?tr = "StdioClientTransport (azureDevOpsOrg ctx)"
  from fail show ?thesis
  proof
    assume "connect_result sdk = Some msg"
    then have "create sdk now ctx cacheKey m =
           (Inl (SdkError msg),
            m\<lparr>created := Suc (created m),
              calls := calls m @ Construct (created m) ?tr # Connect (created m) # []
                         @ [Close (created m)]\<rparr>)"
      using False
      by (simp add: create_def createStdioClient_def connect_and_cache_connect_fails construct_def)
    then show ?thesis by blast
  next
    assume "connect_result sdk = None \<and> listTools_result sdk = Inl msg"
    then have "create sdk now ctx cacheKey m =
           (Inl (SdkError msg),
            m\<lparr>created := Suc (created m),
              calls := calls m @ Construct (created m) ?tr # Connect (created m) # [ListTools (created m)]
                         @ [Close (created m)]\<rparr>)"
      using False
      by (simp add: create_def createStdioClient_def connect_and_cache_list_fails construct_def)
    then show ?thesis by blast
  qed
qed

lemma create_starts:
  assumes url: "mcpTransportType ctx = Some ''http'' \<longrightarrow>
                  \<not> missing (mcpServerUrl ctx) \<and> url_parses sdk"
  shows "\<exists>tr es. calls (snd (create sdk now ctx cacheKey m))
           = calls m @ Construct (created m) tr # Connect (created m) # es"
proof (cases "mcpTransportType ctx = Some ''http''")
  case True
  with url obtain u where u: "mcpServerUrl ctx = Some u" "u \<noteq> []" "url_parses sdk"
    by (auto simp: or_else_def missing_def split: option.splits if_splits)
  show ?thesis
    using True u
    by (auto simp: create_def createHttpClient_def connect_and_cache_def loadToolsForClient_def
        log_effects_def construct_def Let_def split: option.splits sum.splits)
next
  case False
  then show ?thesis
    by (auto simp: create_def createStdioClient_def connect_and_cache_def loadToolsForClient_def
        log_effects_def construct_def Let_def split: option.splits sum.splits)
qed

lemma not_ready_no_entry:
  assumes "pool_inv m" and "\<not> isReady (Some ctx) m"
  shows "map_of (clients m) (generateAuthCacheKey ctx) = None"
proof (cases "map_of (clients m) (generateAuthCacheKey ctx)")
  case None
  then show ?thesis .
next
  case (Some ci)
  then have "(generateAuthCacheKey ctx, ci) \<in> set (clients m)"
    by (rule map_of_SomeD)
  with assms(1) have "isInitialized ci"
    by (auto simp: pool_inv_def list_all_iff)
  with Some assms(2) show ?thesis
    by (simp add: isReady_def)
qed

text \<open>
  Claim C7. Take a manager whose map satisfies the invariant, and a call that attempts a
  creation (an organization is given, nothing initialized is cached under the key, and for
  HTTP the URL is given and accepted). If \<^verbatim>\<open>connect\<close> rejects, or \<^verbatim>\<open>listTools\<close>
  rejects after it, the call fails with that very error; the calls made are the
  construction, \<^verbatim>\<open>connect\<close>, possibly \<^verbatim>\<open>listTools\<close>, and last \<^verbatim>\<open>close\<close> on the new
  client; the map is unchanged and has no entry for the key; and the next call for the
  same context starts a creation again, with a new client.
\<close>

theorem failed_creation_leaves_no_entry:
  assumes inv: "pool_inv m"
    and org: "\<not> missing (azureDevOpsOrg ctx)"
    and miss: "\<not> isReady (Some ctx) m"
    and url: "mcpTransportType ctx = Some ''http'' \<longrightarrow>
                \<not> missing (mcpServerUrl ctx) \<and> url_parses sdk"
    and fail: "connect_result sdk = Some msg
               \<or> (connect_result sdk = None \<and> listTools_result sdk = Inl msg)"
  shows "\<exists>m1 tr es. getOrCreateClient sdk now ctx m = (Inl (SdkError msg), m1)
           \<and> (es = [] \<or> es = [ListTools (created m)])
           \<and> calls m1 = calls m @ Construct (created m) tr # Connect (created m) # es
                          @ [Close (created m)]
           \<and> clients m1 = clients m
           \<and> map_of (clients m1) (generateAuthCacheKey ctx) = None
           \<and> pool_inv m1 \<and> \<not> isReady (Some ctx) m1
           \<and> (\<forall>sdk2 now2.
                 (mcpTransportType ctx = Some ''http'' \<longrightarrow> url_parses sdk2) \<longrightarrow>
                 (\<exists>tr2 es2. calls (snd (getOrCreateClient sdk2 now2 ctx m1))
                    = calls m1 @ Construct (created m1) tr2 # Connect (created m1) # es2))"
proof -
  from create_fails [OF url fail, where now = now and cacheKey = "generateAuthCacheKey ctx" and m = m]
  obtain tr es where es: "es = [] \<or> es = [ListTools (created m)]"
    and c: "create sdk now ctx (generateAuthCacheKey ctx) m =
           (Inl (SdkError msg),
            m\<lparr>created := Suc (created m),
              calls := calls m @ Construct (created m) tr # Connect (created m) # es
                         @ [Close (created m)]\<rparr>)"
    by blast
  define m1 where "m1 = m\<lparr>created := Suc (created m),
              calls := calls m @ Construct (created m) tr # Connect (created m) # es
                         @ [Close (created m)]\<rparr>"
  have r: "getOrCreateClient sdk now ctx m = (Inl (SdkError msg), m1)"
    using getOrCreateClient_miss [OF org miss] c by (simp add: m1_def)
  have cl: "clients m1 = clients m" by (simp add: m1_def)
  have inv1: "pool_inv m1" using inv by (simp add: pool_inv_def cl)
  have miss1: "\<not> isReady (Some ctx) m1" using miss by (simp add: isReady_def cl)
  have none: "map_of (clients m1) (generateAuthCacheKey ctx) = None"
    using not_ready_no_entry [OF inv1 miss1] .
  have retry: "\<exists>tr2 es2. calls (snd (getOrCreateClient sdk2 now2 ctx m1))
                    = calls m1 @ Construct (created m1) tr2 # Connect (created m1) # es2"
    if "mcpTransportType ctx = Some ''http'' \<longrightarrow> url_parses sdk2" for sdk2 now2
  proof -
    have "mcpTransportType ctx = Some ''http'' \<longrightarrow>
                  \<not> missing (mcpServerUrl ctx) \<and> url_parses sdk2"
      using url that by simp
    from create_starts [OF this] show ?thesis
      by (simp add: getOrCreateClient_miss [OF org miss1])
  qed
  have "calls m1 = calls m @ Construct (created m) tr # Connect (created m) # es
                          @ [Close (created m)]"
    by (simp add: m1_def)
  with r es cl none inv1 miss1 retry show ?thesis by blast
qed

lemma close_unused_keys:
  "fst (close_unused cf cutoff xs) = map fst (filter (\<lambda>kc. lastUsed (snd kc) < cutoff) xs)"
  by (induction xs) (auto split: prod.splits)

lemma close_unused_effects:
  "snd (close_unused cf cutoff xs) =
     concat (map (\<lambda>kc. if lastUsed (snd kc) < cutoff
                        then Close (client (snd kc))
                               # (if cf (client (snd kc)) then [LogCloseError (fst kc)] else [])
                        else []) xs)"
  by (induction xs) (auto split: prod.splits)

lemma foldl_delete:
  "foldl (\<lambda>cs key. AList.delete key cs) xs ks = filter (\<lambda>kc. fst kc \<notin> set ks) xs"
proof (induction ks arbitrary: xs)
  case Nil
  show ?case by simp
next
  case (Cons k ks)
  have "filter (\<lambda>kc. fst kc \<notin> set ks) (AList.delete k xs)
          = filter (\<lambda>kc. fst kc \<notin> set (k # ks)) xs"
    by (induction xs) (auto simp: AList.delete_eq)
  with Cons show ?case by simp
qed

lemma filter_old_keys:
  assumes "distinct (map fst xs)"
  shows "filter (\<lambda>kc. fst kc \<notin> set (map fst (filter old xs))) xs = filter (\<lambda>kc. \<not> old kc) xs"
proof (rule filter_cong [OF refl])
  fix kc assume kc: "kc \<in> set xs"
  have "old kc" if "fst kc \<in> set (map fst (filter old xs))"
  proof -
    from that obtain x where x: "x \<in> set xs" "old x" "fst x = fst kc" by auto
    from assms x(1) kc x(3) have "x = kc"
      by (metis eq_key_imp_eq_value prod.collapse)
    with x(2) show ?thesis by simp
  qed
  moreover have "fst kc \<in> set (map fst (filter old xs))" if "old kc"
    using that kc by force
  ultimately show "(fst kc \<notin> set (map fst (filter old xs))) = (\<not> old kc)" by blast
qed

lemma cleanupUnusedClients_clients:
  assumes "distinct (map fst (clients m))"
  shows "clients (cleanupUnusedClients cf now age m)
           = filter (\<lambda>kc. \<not> lastUsed (snd kc) < now - age * 60 * 1000) (clients m)"
proof -
  have "clients (cleanupUnusedClients cf now age m)
          = foldl (\<lambda>cs key. AList.delete key cs) (clients m)
              (fst (close_unused cf (now - age * 60 * 1000) (clients m)))"
    by (simp add: cleanupUnusedClients_def Let_def split: prod.splits)
  then show ?thesis
    by (simp only: foldl_delete close_unused_keys filter_old_keys [OF assms])
qed

lemma cleanupUnusedClients_calls:
  "calls (cleanupUnusedClients cf now age m)
     = calls m @ snd (close_unused cf (now - age * 60 * 1000) (clients m))"
  by (simp add: cleanupUnusedClients_def Let_def split: prod.splits)

lemma map_of_filter_kept:
  assumes "distinct (map fst xs)" and "(k, v) \<in> set xs" and "P (k, v)"
  shows "map_of (filter P xs) k = Some v"
proof -
  have "distinct (map fst (filter P xs))"
    using assms(1) by (simp add: distinct_map_filter)
  moreover have "(k, v) \<in> set (filter P xs)" using assms(2,3) by simp
  ultimately show ?thesis by (rule map_of_is_SomeI)
qed

lemma map_of_filter_dropped:
  assumes "distinct (map fst xs)" and "(k, v) \<in> set xs" and "\<not> P (k, v)"
  shows "map_of (filter P xs) k = None"
proof (rule ccontr)
  assume "map_of (filter P xs) k \<noteq> None"
  then obtain w where "map_of (filter P xs) k = Some w" by auto
  then have w: "(k, w) \<in> set (filter P xs)" by (rule map_of_SomeD)
  then have "(k, w) \<in> set xs" "P (k, w)" by simp_all
  with assms(1,2) have "w = v" by (metis eq_key_imp_eq_value)
  with \<open>P (k, w)\<close> assms(3) show False by simp
qed

text \<open>
  Claim C8. On a map with one entry per key, \<^verbatim>\<open>cleanupUnusedClients\<close> keeps exactly the
  entries whose \<open>lastUsed\<close> is not before \<open>now - maxAgeMinutes\<close> minutes, unchanged and
  in order; it closes the client of every other entry, in order, logs each close that
  fails and goes on. So an entry last used before the cut-off is closed and gone, whether
  or not its close fails, and a younger one stays as it was; with 30 minutes, an entry 31
  minutes old goes and one 10 minutes old stays.
\<close>

theorem cleanupUnused_sweeps_by_age:
  assumes keys: "distinct (map fst (clients m))"
    and entry: "(k, ci) \<in> set (clients m)"
  shows "clients (cleanupUnusedClients cf now age m)
           = filter (\<lambda>kc. \<not> lastUsed (snd kc) < now - age * 60 * 1000) (clients m)
    \<and> calls (cleanupUnusedClients cf now age m)
        = calls m @ concat (map (\<lambda>kc. if lastUsed (snd kc) < now - age * 60 * 1000
                        then Close (client (snd kc))
                               # (if cf (client (snd kc)) then [LogCloseError (fst kc)] else [])
                        else []) (clients m))
    \<and> (lastUsed ci < now - age * 60 * 1000 \<longrightarrow>
          map_of (clients (cleanupUnusedClients cf now age m)) k = None
          \<and> Close (client ci) \<in> set (calls (cleanupUnusedClients cf now age m))
          \<and> (cf (client ci) \<longrightarrow> LogCloseError k \<in> set (calls (cleanupUnusedClients cf now age m))))
    \<and> (\<not> lastUsed ci < now - age * 60 * 1000 \<longrightarrow>
          map_of (clients (cleanupUnusedClients cf now age m)) k = Some ci)
    \<and> (age = 30 \<and> lastUsed ci = now - 31 * 60 * 1000 \<longrightarrow>
          map_of (clients (cleanupUnusedClients cf now age m)) k = None
          \<and> Close (client ci) \<in> set (calls (cleanupUnusedClients cf now age m)))
    \<and> (age = 30 \<and> lastUsed ci = now - 10 * 60 * 1000 \<longrightarrow>
          map_of (clients (cleanupUnusedClients cf now age m)) k = Some ci)"
proof -
  let ?m = "cleanupUnusedClients cf now age m"
  let ?cut = "now - age * 60 * 1000"
  have cl: "clients ?m = filter (\<lambda>kc. \<not> lastUsed (snd kc) < ?cut) (clients m)"
    using keys by (rule cleanupUnusedClients_clients)
  have ca: "calls ?m = calls m @ concat (map (\<lambda>kc. if lastUsed (snd kc) < ?cut
                        then Close (client (snd kc))
                               # (if cf (client (snd kc)) then [LogCloseError (fst kc)] else [])
                        else []) (clients m))"
    by (simp only: cleanupUnusedClients_calls close_unused_effects)
  have old: "map_of (clients ?m) k = None \<and> Close (client ci) \<in> set (calls ?m)
          \<and> (cf (client ci) \<longrightarrow> LogCloseError k \<in> set (calls ?m))" if "lastUsed ci < ?cut"
  proof (intro conjI impI)
    show "map_of (clients ?m) k = None"
      unfolding cl using keys entry that by (intro map_of_filter_dropped [where v = ci]) simp_all
    show "Close (client ci) \<in> set (calls ?m)"
      unfolding ca using entry that by (auto intro!: bexI [of _ "(k, ci)"])
    show "LogCloseError k \<in> set (calls ?m)" if "cf (client ci)"
      unfolding ca using entry \<open>lastUsed ci < ?cut\<close> that by (auto intro!: bexI [of _ "(k, ci)"])
  qed
  have young: "map_of (clients ?m) k = Some ci" if "\<not> lastUsed ci < ?cut"
    unfolding cl using keys entry that by (intro map_of_filter_kept) simp_all
  have a31: "lastUsed ci < ?cut" if "age = 30 \<and> lastUsed ci = now - 31 * 60 * 1000"
    using that by simp
  have a10: "\<not> lastUsed ci < ?cut" if "age = 30 \<and> lastUsed ci = now - 10 * 60 * 1000"
    using that by simp
  show ?thesis
  proof (intro conjI impI)
    show "clients ?m = filter (\<lambda>kc. \<not> lastUsed (snd kc) < ?cut) (clients m)"
      by (rule cl)
    show "calls ?m = calls m @ concat (map (\<lambda>kc. if lastUsed (snd kc) < ?cut
                        then Close (client (snd kc))
                               # (if cf (client (snd kc)) then [LogCloseError (fst kc)] else [])
                        else []) (clients m))"
      by (rule ca)
    show "map_of (clients ?m) k = None" if "lastUsed ci < ?cut"
      using old [OF that] by simp
    show "Close (client ci) \<in> set (calls ?m)" if "lastUsed ci < ?cut"
      using old [OF that] by simp
    show "LogCloseError k \<in> set (calls ?m)" if "lastUsed ci < ?cut" and "cf (client ci)"
      using old [OF that(1)] that(2) by simp
    show "map_of (clients ?m) k = Some ci" if "\<not> lastUsed ci < ?cut"
      using young [OF that] .
    show "map_of (clients ?m) k = None" if "age = 30 \<and> lastUsed ci = now - 31 * 60 * 1000"
      using old [OF a31 [OF that]] by simp
    show "Close (client ci) \<in> set (calls ?m)" if "age = 30 \<and> lastUsed ci = now - 31 * 60 * 1000"
      using old [OF a31 [OF that]] by simp
    show "map_of (clients ?m) k = Some ci" if "age = 30 \<and> lastUsed ci = now - 10 * 60 * 1000"
      using young [OF a10 [OF that]] .
  qed
qed

section \<open>The invariant, \<^verbatim>\<open>callTool\<close> and overlapping calls\<close>

lemma list_all_update:
  "list_all P al \<Longrightarrow> P (k, v) \<Longrightarrow> list_all P (AList.update k v al)"
  by (induction al) auto

lemma pool_inv_new: "pool_inv new_manager"
  by (simp add: pool_inv_def new_manager_def)

lemma pool_inv_store:
  assumes "pool_inv m" and "isInitialized ci"
  shows "pool_inv (m\<lparr>clients := AList.update k ci (clients m)\<rparr>)"
  using assms by (simp add: pool_inv_def distinct_update list_all_update)

lemma pool_inv_connect_and_cache:
  assumes "pool_inv m"
  shows "pool_inv (snd (connect_and_cache sdk now cacheKey c tr m))"
proof -
  have 1: "pool_inv (log_effects es m)" for es
    using assms by (simp add: pool_inv_def log_effects_def)
  have 2: "pool_inv ((log_effects es m)\<lparr>clients := AList.update cacheKey
      \<lparr>client = c, transport = tr, tools = ts, isInitialized = True, lastUsed = now\<rparr>
      (clients (log_effects es m))\<rparr>)" for es ts
    using 1 by (intro pool_inv_store) simp_all
  show ?thesis
    using 1 2
    by (auto simp: connect_and_cache_def loadToolsForClient_def Let_def log_effects_def
        split: option.splits sum.splits)
qed

lemma pool_inv_construct: "pool_inv (construct tr m) = pool_inv m"
  by (simp add: pool_inv_def construct_def)

lemma pool_inv_create:
  assumes "pool_inv m"
  shows "pool_inv (snd (create sdk now ctx cacheKey m))"
  using assms pool_inv_connect_and_cache pool_inv_construct
  by (auto simp: create_def createHttpClient_def createStdioClient_def Let_def
      split: option.splits)

lemma pool_inv_getOrCreateClient:
  assumes "pool_inv m"
  shows "pool_inv (snd (getOrCreateClient sdk now ctx m))"
proof -
  have "pool_inv (m\<lparr>clients := AList.update k (ci\<lparr>lastUsed := now\<rparr>) (clients m)\<rparr>)"
    if "isInitialized ci" for k ci
    using assms that by (intro pool_inv_store) simp_all
  then show ?thesis
    using assms pool_inv_create
    by (auto simp: getOrCreateClient_def Let_def split: option.splits)
qed

lemma pool_inv_callTool:
  assumes "pool_inv m"
  shows "pool_inv (snd (callTool sdk now toolName args ctx m))"
proof (cases ctx)
  case None
  with assms show ?thesis by (simp add: callTool_def)
next
  case (Some c)
  obtain r m1 where g: "getOrCreateClient sdk now c m = (r, m1)" by (cases "getOrCreateClient sdk now c m")
  with pool_inv_getOrCreateClient [OF assms, of sdk now c] have "pool_inv m1" by simp
  then have "pool_inv (log_effects es m1)" for es
    by (simp add: pool_inv_def log_effects_def)
  with \<open>pool_inv m1\<close> show ?thesis
    using Some g by (auto simp: callTool_def Let_def split: sum.splits)
qed

lemma pool_inv_cleanupUnusedClients:
  assumes "pool_inv m"
  shows "pool_inv (cleanupUnusedClients cf now age m)"
proof -
  from assms have d: "distinct (map fst (clients m))"
    and a: "list_all (\<lambda>kc. isInitialized (snd kc)) (clients m)"
    by (simp_all add: pool_inv_def)
  show ?thesis
    using d a
    by (simp add: pool_inv_def cleanupUnusedClients_clients [OF d] distinct_map_filter
        list_all_iff)
qed

lemma pool_inv_cleanup: "pool_inv (cleanup m)"
  by (simp add: pool_inv_def cleanup_def)

lemma callTool_by_getOrCreate:
  "callTool sdk now toolName args (Some ctx) m =
     (case getOrCreateClient sdk now ctx m of
        (Inl e, m1) \<Rightarrow> (Inl e, m1)
      | (Inr ci, m1) \<Rightarrow>
          (case callTool_result sdk of Inl msg \<Rightarrow> Inl (SdkError msg) | Inr r \<Rightarrow> Inr r,
           m1\<lparr>calls := calls m1 @ [CallTool (client ci) toolName (or_empty_object args)]\<rparr>))"
  by (simp add: callTool_def log_effects_def Let_def split: sum.splits prod.splits)

lemma create_stdio_ok:
  assumes "mcpTransportType ctx \<noteq> Some ''http''"
    and "connect_result sdk = None" and "listTools_result sdk = Inr r"
  shows "create sdk now ctx cacheKey m =
     (Inr \<lparr>client = created m, transport = StdioClientTransport (azureDevOpsOrg ctx),
           tools = (case r of None \<Rightarrow> [] | Some ts \<Rightarrow> ts), isInitialized = True, lastUsed = now\<rparr>,
      m\<lparr>clients := AList.update cacheKey
             \<lparr>client = created m, transport = StdioClientTransport (azureDevOpsOrg ctx),
              tools = (case r of None \<Rightarrow> [] | Some ts \<Rightarrow> ts), isInitialized = True, lastUsed = now\<rparr>
             (clients m),
        created := Suc (created m),
        calls := calls m @ [Construct (created m) (StdioClientTransport (azureDevOpsOrg ctx)),
                            Connect (created m), ListTools (created m)]\<rparr>)"
  using assms
  by (simp add: create_def createStdioClient_def connect_and_cache_def loadToolsForClient_def
      log_effects_def construct_def Let_def)

text \<open>
  Claim C5, as the code has it. \<^verbatim>\<open>callTool\<close> throws when it is given no context;
  otherwise it calls \<^verbatim>\<open>getOrCreateClient\<close>, fails with its error when that fails, and
  on success invokes the tool on the client of the instance returned, whatever the tool
  catalog holds (an empty object stands for falsy arguments), giving back the SDK's
  result or error. When nothing is cached for the context it therefore creates the client
  first: construction, \<^verbatim>\<open>connect\<close>, \<^verbatim>\<open>listTools\<close>, then the tool call.
\<close>

theorem callTool_goes_through_getOrCreate:
  "callTool sdk now toolName args None m = (Inl AuthContextRequired, m)
   \<and> (getOrCreateClient sdk now ctx m = (Inl e, m1) \<longrightarrow>
        callTool sdk now toolName args (Some ctx) m = (Inl e, m1))
   \<and> (getOrCreateClient sdk now ctx m = (Inr ci, m1) \<longrightarrow>
        callTool sdk now toolName args (Some ctx) m =
          (case callTool_result sdk of Inl msg \<Rightarrow> Inl (SdkError msg) | Inr r \<Rightarrow> Inr r,
           m1\<lparr>calls := calls m1 @ [CallTool (client ci) toolName (or_empty_object args)]\<rparr>))
   \<and> (\<not> missing (azureDevOpsOrg ctx) \<and> mcpTransportType ctx \<noteq> Some ''http''
        \<and> \<not> isReady (Some ctx) m
        \<and> connect_result sdk = None \<and> listTools_result sdk = Inr (Some ts) \<longrightarrow>
        calls (snd (callTool sdk now toolName args (Some ctx) m)) =
          calls m @ [Construct (created m) (StdioClientTransport (azureDevOpsOrg ctx)),
                     Connect (created m), ListTools (created m),
                     CallTool (created m) toolName (or_empty_object args)])"
proof (intro conjI impI)
  show "callTool sdk now toolName args None m = (Inl AuthContextRequired, m)"
    by (simp add: callTool_def)
next
  assume "getOrCreateClient sdk now ctx m = (Inl e, m1)"
  then show "callTool sdk now toolName args (Some ctx) m = (Inl e, m1)"
    by (simp add: callTool_by_getOrCreate)
next
  assume "getOrCreateClient sdk now ctx m = (Inr ci, m1)"
  then show "callTool sdk now toolName args (Some ctx) m =
          (case callTool_result sdk of Inl msg \<Rightarrow> Inl (SdkError msg) | Inr r \<Rightarrow> Inr r,
           m1\<lparr>calls := calls m1 @ [CallTool (client ci) toolName (or_empty_object args)]\<rparr>)"
    by (simp add: callTool_by_getOrCreate)
next
  assume a: "\<not> missing (azureDevOpsOrg ctx) \<and> mcpTransportType ctx \<noteq> Some ''http''
        \<and> \<not> isReady (Some ctx) m
        \<and> connect_result sdk = None \<and> listTools_result sdk = Inr (Some ts)"
  then have "getOrCreateClient sdk now ctx m = create sdk now ctx (generateAuthCacheKey ctx) m"
    by (simp add: getOrCreateClient_def isReady_def split: option.splits)
  with a show "calls (snd (callTool sdk now toolName args (Some ctx) m)) =
          calls m @ [Construct (created m) (StdioClientTransport (azureDevOpsOrg ctx)),
                     Connect (created m), ListTools (created m),
                     CallTool (created m) toolName (or_empty_object args)]"
    by (simp add: callTool_by_getOrCreate create_stdio_ok)
qed

lemma turns_from_connect:
  "foldl (turn (\<lambda>i. sdk)) ([AwaitConnect k c tr], log_effects [Connect c] m)
      [(0, now), (0, now), (0, now), (0, now)]
   = ([Settled (fst (connect_and_cache sdk now k c tr m))],
      snd (connect_and_cache sdk now k c tr m))"
  by (simp add: turn_def connect_and_cache_def loadToolsForClient_def log_effects_def Let_def
      split: option.splits sum.splits)

lemma turns_settled:
  "foldl (turn (\<lambda>i. sdk)) ([Settled r], m) [(0, now), (0, now), (0, now), (0, now)]
   = ([Settled r], m)"
  by (simp add: turn_def)

lemma start_create_cases:
  "(\<exists>r. start_create sdk ctx k m = (Settled r, m) \<and> create sdk now ctx k m = (r, m))
   \<or> (\<exists>c tr m0. start_create sdk ctx k m = (AwaitConnect k c tr, log_effects [Connect c] m0)
         \<and> create sdk now ctx k m = connect_and_cache sdk now k c tr m0)"
  by (auto simp: start_create_def create_def createHttpClient_def createStdioClient_def Let_def
      split: option.splits)

lemma first_turn:
  "(\<exists>r m1. resume sdk now (NotStarted ctx) m = (Settled r, m1)
       \<and> getOrCreateClient sdk now ctx m = (r, m1))
   \<or> (\<exists>k c tr m0. resume sdk now (NotStarted ctx) m
                      = (AwaitConnect k c tr, log_effects [Connect c] m0)
         \<and> getOrCreateClient sdk now ctx m = connect_and_cache sdk now k c tr m0)"
  using start_create_cases [of sdk ctx "generateAuthCacheKey ctx" m now]
  by (auto simp: getOrCreateClient_def Let_def split: option.splits)

lemma run_alone_getOrCreateClient:
  "run_alone sdk now ctx m =
     ([Settled (fst (getOrCreateClient sdk now ctx m))], snd (getOrCreateClient sdk now ctx m))"
proof -
  have unfold: "run_alone sdk now ctx m =
      foldl (turn (\<lambda>i. sdk))
        (case resume sdk now (NotStarted ctx) m of (t, m1) \<Rightarrow> ([t], m1))
        [(0, now), (0, now), (0, now), (0, now)]"
    by (simp add: run_alone_def run_schedule_def eval_nat_numeral turn_def split: prod.splits)
  from first_turn [of sdk now ctx m] show ?thesis
  proof (elim disjE exE conjE)
    fix r m1
    assume "resume sdk now (NotStarted ctx) m = (Settled r, m1)"
      and "getOrCreateClient sdk now ctx m = (r, m1)"
    then show ?thesis
      unfolding unfold by (simp only: prod.case turns_settled fst_conv snd_conv)
  next
    fix k c tr m0
    assume "resume sdk now (NotStarted ctx) m = (AwaitConnect k c tr, log_effects [Connect c] m0)"
      and "getOrCreateClient sdk now ctx m = connect_and_cache sdk now k c tr m0"
    then show ?thesis
      unfolding unfold by (simp only: prod.case turns_from_connect fst_conv snd_conv)
  qed
qed

lemma pool_inv_log_effects: "pool_inv (log_effects es m) = pool_inv m"
  by (simp add: pool_inv_def log_effects_def)

lemma pool_inv_start_create:
  "pool_inv m \<Longrightarrow> pool_inv (snd (start_create sdk ctx k m))"
  by (auto simp: start_create_def Let_def pool_inv_log_effects pool_inv_construct
      split: option.splits)

lemma pool_inv_resume:
  assumes "pool_inv m"
  shows "pool_inv (snd (resume sdk now t m))"
proof (cases t)
  case (NotStarted ctx)
  have "pool_inv (m\<lparr>clients := AList.update k (ci\<lparr>lastUsed := now\<rparr>) (clients m)\<rparr>)"
    if "isInitialized ci" for k ci
    using assms that by (intro pool_inv_store) simp_all
  then show ?thesis
    using NotStarted assms pool_inv_start_create
    by (auto simp: Let_def split: option.splits)
next
  case (AwaitListTools k c tr)
  have "pool_inv (m\<lparr>clients := AList.update k
      \<lparr>client = c, transport = tr, tools = ts, isInitialized = True, lastUsed = now\<rparr> (clients m)\<rparr>)"
    for ts
    using assms by (intro pool_inv_store) simp_all
  then show ?thesis
    using AwaitListTools assms
    by (auto simp: Let_def pool_inv_log_effects split: sum.splits)
qed (use assms in \<open>auto simp: pool_inv_log_effects split: option.splits\<close>)

lemma pool_inv_turn:
  assumes "pool_inv (snd s)"
  shows "pool_inv (snd (turn sdk s it))"
proof -
  obtain ts m i now where s: "s = (ts, m)" and it: "it = (i, now)"
    by (cases s, cases it) auto
  show ?thesis
    using assms pool_inv_resume [of m "sdk i" now "ts ! i"]
    by (auto simp: s it turn_def split: prod.splits)
qed

lemma pool_inv_run_schedule:
  "pool_inv (snd s) \<Longrightarrow> pool_inv (snd (run_schedule sdk schedule s))"
  unfolding run_schedule_def
  by (induction schedule arbitrary: s) (simp_all add: pool_inv_turn)

text \<open>
  Claim C4, as the code has it. The map holds at most one instance per key, and only
  initialized ones, through every schedule. A call that starts when an initialized instance
  is cached under its key settles at once with that instance and no effect. A call that
  starts when none is cached constructs a client of its own and calls \<^verbatim>\<open>connect\<close> on
  it, whatever the other calls in progress are waiting for: it does not join a creation
  in flight for the same key.
\<close>

theorem overlapping_calls_each_create:
  assumes i: "i < length ts" and t: "ts ! i = NotStarted ctx"
    and org: "\<not> missing (azureDevOpsOrg ctx)"
  shows "(map_of (clients m) (generateAuthCacheKey ctx) = Some ci \<and> isInitialized ci \<longrightarrow>
            turn sdk (ts, m) (i, now)
              = (ts[i := Settled (Inr (ci\<lparr>lastUsed := now\<rparr>))],
                 m\<lparr>clients := AList.update (generateAuthCacheKey ctx) (ci\<lparr>lastUsed := now\<rparr>)
                                (clients m)\<rparr>))
    \<and> (\<not> isReady (Some ctx) m
          \<and> (mcpTransportType ctx = Some ''http'' \<longrightarrow>
                \<not> missing (mcpServerUrl ctx) \<and> url_parses (sdk i)) \<longrightarrow>
            (\<exists>tr. turn sdk (ts, m) (i, now)
              = (ts[i := AwaitConnect (generateAuthCacheKey ctx) (created m) tr],
                 m\<lparr>created := Suc (created m),
                   calls := calls m @ [Construct (created m) tr, Connect (created m)]\<rparr>)))
    \<and> (pool_inv m \<longrightarrow> pool_inv (snd (run_schedule sdk schedule (ts, m))))"
proof (intro conjI impI)
  assume "map_of (clients m) (generateAuthCacheKey ctx) = Some ci \<and> isInitialized ci"
  then show "turn sdk (ts, m) (i, now)
              = (ts[i := Settled (Inr (ci\<lparr>lastUsed := now\<rparr>))],
                 m\<lparr>clients := AList.update (generateAuthCacheKey ctx) (ci\<lparr>lastUsed := now\<rparr>)
                                (clients m)\<rparr>)"
    using i t org by (simp add: turn_def)
next
  assume a: "\<not> isReady (Some ctx) m
          \<and> (mcpTransportType ctx = Some ''http'' \<longrightarrow>
                \<not> missing (mcpServerUrl ctx) \<and> url_parses (sdk i))"
  have "\<exists>tr. start_create (sdk i) ctx (generateAuthCacheKey ctx) m
          = (AwaitConnect (generateAuthCacheKey ctx) (created m) tr,
             m\<lparr>created := Suc (created m),
               calls := calls m @ [Construct (created m) tr, Connect (created m)]\<rparr>)"
    using a
    by (auto simp: start_create_def log_effects_def construct_def Let_def or_else_def missing_def
        split: option.splits if_splits)
  then obtain tr where "start_create (sdk i) ctx (generateAuthCacheKey ctx) m
          = (AwaitConnect (generateAuthCacheKey ctx) (created m) tr,
             m\<lparr>created := Suc (created m),
               calls := calls m @ [Construct (created m) tr, Connect (created m)]\<rparr>)"
    by blast
  then have "turn sdk (ts, m) (i, now)
              = (ts[i := AwaitConnect (generateAuthCacheKey ctx) (created m) tr],
                 m\<lparr>created := Suc (created m),
                   calls := calls m @ [Construct (created m) tr, Connect (created m)]\<rparr>)"
    using i t org a
    by (auto simp: turn_def isReady_def Let_def split: option.splits)
  then show "\<exists>tr. turn sdk (ts, m) (i, now)
              = (ts[i := AwaitConnect (generateAuthCacheKey ctx) (created m) tr],
                 m\<lparr>created := Suc (created m),
                   calls := calls m @ [Construct (created m) tr, Connect (created m)]\<rparr>)"
    by blast
next
  assume "pool_inv m"
  then show "pool_inv (snd (run_schedule sdk schedule (ts, m)))"
    by (simp add: pool_inv_run_schedule)
qed

section \<open>The pool of one organization\<close>

text \<open>
  Two contexts of one organization have the same key only if they have the same transport
  type and URL, up to the defaults: the key of the HTTP context without a URL is the key of
  no context for which a client can be created. So in every state of a manager that serves
  one organization, nothing is cached under that key and no creation for it is in progress.
\<close>

lemma extractAuthenticationMiddleware_org:
  "azureDevOpsOrg (extractAuthenticationMiddleware env headers) = env ''AZURE_DEVOPS_ORG''"
  by (simp add: extractAuthenticationMiddleware_def)

lemma http_bar: "T @ ''|'' @ U = ''http|'' \<Longrightarrow> T = ''http'' \<and> U = []"
  by (auto simp: append_eq_Cons_conv)

lemma key_without_url:
  "mcpTransportType ctx = Some ''http'' \<Longrightarrow> missing (mcpServerUrl ctx) \<Longrightarrow>
   generateAuthCacheKey ctx = or_else (azureDevOpsOrg ctx) [] @ ''|http|''"
  by (auto simp: generateAuthCacheKey_def or_else_def missing_def split: option.splits)

lemma key_without_url_only:
  assumes "generateAuthCacheKey ctx = or_else (azureDevOpsOrg ctx) [] @ ''|http|''"
  shows "mcpTransportType ctx = Some ''http'' \<and> missing (mcpServerUrl ctx)"
proof -
  from assms have "or_else (mcpTransportType ctx) ''stdio'' @ ''|'' @ or_else (mcpServerUrl ctx) []
                     = ''http|''"
    by (simp add: generateAuthCacheKey_def)
  then have "or_else (mcpTransportType ctx) ''stdio'' = ''http'' \<and> or_else (mcpServerUrl ctx) [] = []"
    by (rule http_bar)
  then show ?thesis
    by (auto simp: or_else_def missing_def split: option.splits if_splits)
qed

lemma one_org_start_create:
  assumes "azureDevOpsOrg ctx = org"
  shows "task_ok org (fst (start_create sdk ctx (generateAuthCacheKey ctx) m))
         \<and> clients (snd (start_create sdk ctx (generateAuthCacheKey ctx) m)) = clients m"
proof (cases "generateAuthCacheKey ctx = or_else org [] @ ''|http|''")
  case True
  with assms have "mcpTransportType ctx = Some ''http'' \<and> missing (mcpServerUrl ctx)"
    using key_without_url_only [of ctx] by simp
  then show ?thesis
    by (auto simp: start_create_def missing_def split: option.splits)
next
  case False
  then show ?thesis
    by (auto simp: start_create_def log_effects_def construct_def Let_def split: option.splits)
qed

lemma keys_update: "fst ` set (AList.update k v xs) = insert k (fst ` set xs)"
  using dom_update [of k v xs] by (simp add: dom_map_of_conv_image_fst)

lemma one_org_resume:
  assumes absent: "or_else org [] @ ''|http|'' \<notin> fst ` set (clients m)" and t: "task_ok org t"
  shows "task_ok org (fst (resume sdk now t m))
         \<and> or_else org [] @ ''|http|'' \<notin> fst ` set (clients (snd (resume sdk now t m)))"
proof (cases t)
  case (NotStarted ctx)
  with t have org: "azureDevOpsOrg ctx = org" by simp
  have hit: "or_else org [] @ ''|http|'' \<noteq> generateAuthCacheKey ctx"
    if "map_of (clients m) (generateAuthCacheKey ctx) = Some ci" for ci
  proof -
    from that have "(generateAuthCacheKey ctx, ci) \<in> set (clients m)"
      by (rule map_of_SomeD)
    with absent show ?thesis by force
  qed
  show ?thesis
    unfolding NotStarted
    using one_org_start_create [OF org, of sdk m] absent hit
    by (simp add: Let_def keys_update del: image_insert split: option.splits)
next
  case (AwaitConnect k c tr)
  with absent t show ?thesis
    by (simp add: log_effects_def split: option.splits)
next
  case (AwaitTimer k c tr)
  with absent t show ?thesis
    by (simp add: log_effects_def)
next
  case (AwaitListTools k c tr)
  with absent t show ?thesis
    by (simp add: log_effects_def Let_def keys_update del: image_insert split: sum.splits)
next
  case (AwaitClose e c)
  with absent show ?thesis by simp
next
  case (Settled x)
  with absent show ?thesis by simp
qed

lemma one_org_turn:
  assumes "one_org org s"
  shows "one_org org (turn sdk s it)"
proof -
  obtain ts m i now where s: "s = (ts, m)" and it: "it = (i, now)"
    by (cases s, cases it) auto
  from assms have absent: "or_else org [] @ ''|http|'' \<notin> fst ` set (clients m)"
    and all: "list_all (task_ok org) ts"
    by (simp_all add: s one_org_def)
  show ?thesis
  proof (cases "i < length ts")
    case False
    with assms show ?thesis by (simp add: s it turn_def)
  next
    case True
    with all have "task_ok org (ts ! i)"
      by (simp add: list_all_length)
    from one_org_resume [OF absent this, of "sdk i" now]
    have ok: "task_ok org (fst (resume (sdk i) now (ts ! i) m))"
      and absent1: "or_else org [] @ ''|http|''
                      \<notin> fst ` set (clients (snd (resume (sdk i) now (ts ! i) m)))"
      by simp_all
    from all ok True have "list_all (task_ok org) (ts[i := fst (resume (sdk i) now (ts ! i) m)])"
      by (auto simp: list_all_length nth_list_update)
    with absent1 True show ?thesis
      by (simp add: s it turn_def one_org_def case_prod_beta)
  qed
qed

lemma one_org_run_schedule:
  "one_org org s \<Longrightarrow> one_org org (run_schedule sdk schedule s)"
  unfolding run_schedule_def
  by (induction schedule arbitrary: s) (simp_all add: one_org_turn)

lemma one_org_getOrCreateClient:
  assumes "one_org org (ts, m)" and "azureDevOpsOrg ctx = org"
  shows "one_org org (ts, snd (getOrCreateClient sdk now ctx m))"
proof -
  from assms have "one_org org ([NotStarted ctx], m)"
    by (simp add: one_org_def)
  then have "one_org org (run_alone sdk now ctx m)"
    unfolding run_alone_def by (rule one_org_run_schedule)
  with assms(1) show ?thesis
    by (simp add: run_alone_getOrCreateClient one_org_def)
qed

lemma clients_callTool:
  "clients (snd (callTool sdk now toolName arguments (Some ctx) m))
     = clients (snd (getOrCreateClient sdk now ctx m))"
  by (simp add: callTool_def log_effects_def Let_def split: prod.splits sum.splits)

lemma one_org_callTool:
  assumes "one_org org (ts, m)" and "azureDevOpsOrg ctx = org"
  shows "one_org org (ts, snd (callTool sdk now toolName arguments (Some ctx) m))"
  using one_org_getOrCreateClient [OF assms, of sdk now] assms(1)
  by (simp add: one_org_def clients_callTool)

lemma one_org_cleanupUnusedClients:
  assumes "one_org org (ts, m)"
  shows "one_org org (ts, cleanupUnusedClients cf now age m)"
proof -
  have "set (clients (cleanupUnusedClients cf now age m)) \<subseteq> set (clients m)"
    by (auto simp: cleanupUnusedClients_def Let_def foldl_delete split: prod.splits)
  with assms show ?thesis
    by (auto simp: one_org_def)
qed

lemma one_org_cleanup: "one_org org (ts, m) \<Longrightarrow> one_org org (ts, cleanup m)"
  by (simp add: one_org_def cleanup_def)

lemma reachable_one_org: "reachable org s \<Longrightarrow> one_org org s"
proof (induction rule: reachable.induct)
  case initial
  show ?case by (simp add: one_org_def new_manager_def)
next
  case (request ts m authContext)
  then show ?case by (simp add: one_org_def)
next
  case (step s sdk it)
  then show ?case by (simp add: one_org_turn)
next
  case (get_or_create ts m authContext sdk now)
  then show ?case by (simp add: one_org_getOrCreateClient)
next
  case (call_tool ts m authContext sdk now toolName arguments)
  then show ?case by (simp add: one_org_callTool)
next
  case (sweep ts m close_fails now maxAgeMinutes)
  then show ?case by (simp add: one_org_cleanupUnusedClients)
next
  case (shutdown ts m)
  then show ?case by (simp add: one_org_cleanup)
qed

text \<open>
  Claim C9. Without an organization (absent or empty) \<^verbatim>\<open>getOrCreateClient\<close> throws
  the missing-organization error. In a manager that serves one organization, as the
  server's does, a context with the transport type \<^verbatim>\<open>'http'\<close> and no server URL
  (absent or empty) makes it throw the missing-URL error. In both cases the call fails in
  its first turn, before any \<^verbatim>\<open>await\<close>, and the manager is as it was: nothing
  constructed, no SDK call, the map unchanged.
\<close>

theorem getOrCreate_validation_errors:
  "(missing (azureDevOpsOrg ctx) \<longrightarrow>
      getOrCreateClient sdk now ctx m = (Inl MissingOrganization, m)
      \<and> resume sdk now (NotStarted ctx) m = (Settled (Inl MissingOrganization), m))
   \<and> (reachable (azureDevOpsOrg ctx') (ts, m') \<and> \<not> missing (azureDevOpsOrg ctx')
        \<and> mcpTransportType ctx' = Some ''http'' \<and> missing (mcpServerUrl ctx') \<longrightarrow>
      getOrCreateClient sdk now ctx' m' = (Inl MissingServerUrl, m')
      \<and> resume sdk now (NotStarted ctx') m' = (Settled (Inl MissingServerUrl), m'))"
proof (intro conjI impI)
  assume "missing (azureDevOpsOrg ctx)"
  then show "getOrCreateClient sdk now ctx m = (Inl MissingOrganization, m)"
    and "resume sdk now (NotStarted ctx) m = (Settled (Inl MissingOrganization), m)"
    by (simp_all add: getOrCreateClient_def)
next
  assume a: "reachable (azureDevOpsOrg ctx') (ts, m') \<and> \<not> missing (azureDevOpsOrg ctx')
        \<and> mcpTransportType ctx' = Some ''http'' \<and> missing (mcpServerUrl ctx')"
  then have "one_org (azureDevOpsOrg ctx') (ts, m')"
    by (simp add: reachable_one_org)
  with a have "generateAuthCacheKey ctx' \<notin> fst ` set (clients m')"
    by (simp add: one_org_def key_without_url)
  then have none: "map_of (clients m') (generateAuthCacheKey ctx') = None"
    by (simp add: map_of_eq_None_iff)
  with a show "getOrCreateClient sdk now ctx' m' = (Inl MissingServerUrl, m')"
    by (auto simp: getOrCreateClient_def create_def createHttpClient_def missing_def
        split: option.splits)
  from none a show "resume sdk now (NotStarted ctx') m' = (Settled (Inl MissingServerUrl), m')"
    by (auto simp: start_create_def missing_def split: option.splits)
qed


section \<open>Concrete runs\<close>

text \<open>
  Where the wording of C4 fails: two calls for the same key, the second started while the
  first waits for \<^verbatim>\<open>connect\<close>. Two clients are constructed and connected; both calls
  return an instance; the map keeps the second and the first is never closed.
\<close>

theorem second_handshake_in_flight_counterexample:
  "generateAuthCacheKey (acme (Some ''stdio'') None) = ''acme|stdio|''
   \<and> run_schedule (\<lambda>i. ok_sdk)
        [(0, 1000), (1, 1001), (0, 1002), (1, 1003), (0, 1004), (1, 1005), (0, 1006), (1, 1007)]
        ([NotStarted (acme (Some ''stdio'') None), NotStarted (acme (Some ''stdio'') None)],
         new_manager)
     = ([Settled (Inr (acme_instance 0 1006)), Settled (Inr (acme_instance 1 1007))],
        \<lparr>clients = [(''acme|stdio|'', acme_instance 1 1007)],
         created = 2,
         calls = [Construct 0 (StdioClientTransport (Some ''acme'')), Connect 0,
                  Construct 1 (StdioClientTransport (Some ''acme'')), Connect 1,
                  ListTools 0, ListTools 1]\<rparr>)"
  by (simp add: run_schedule_def turn_def start_create_def ok_sdk_def refusing_sdk_def acme_def
      acme_instance_def sample_tool_def new_manager_def getOrCreateClient_def create_def
      createHttpClient_def createStdioClient_def connect_and_cache_def
      loadToolsForClient_def log_effects_def construct_def generateAuthCacheKey_def
      or_else_def missing_def Let_def)

text \<open>
  Where the wording of C5 fails: nothing is cached and the tool is in no catalog, yet
  \<^verbatim>\<open>callTool\<close> creates the client and invokes the tool.
\<close>

theorem callTool_creates_and_skips_catalog_counterexample:
  "\<not> isReady (Some (acme (Some ''stdio'') None)) new_manager
   \<and> getTool ''no_such_tool'' (Some (acme (Some ''stdio'') None))
        (snd (callTool ok_sdk 1000 ''no_such_tool'' None (Some (acme (Some ''stdio'') None))
           new_manager)) = None
   \<and> callTool ok_sdk 1000 ''no_such_tool'' None (Some (acme (Some ''stdio'') None)) new_manager
     = (Inr (JObj [(''content'', JArr [])]),
        \<lparr>clients = [(''acme|stdio|'', acme_instance 0 1000)],
         created = 1,
         calls = [Construct 0 (StdioClientTransport (Some ''acme'')), Connect 0, ListTools 0,
                  CallTool 0 ''no_such_tool'' (JObj [])]\<rparr>)"
  by (simp add: callTool_def isReady_def getTool_def getTools_def or_empty_object_def ok_sdk_def
      refusing_sdk_def acme_def acme_instance_def sample_tool_def new_manager_def
      getOrCreateClient_def create_def createHttpClient_def createStdioClient_def
      connect_and_cache_def loadToolsForClient_def log_effects_def construct_def
      generateAuthCacheKey_def or_else_def missing_def Let_def)

text \<open>A second call arriving after the first has cached its instance, and one arriving
  while the first still waits for \<^verbatim>\<open>connect\<close>.\<close>

theorem overlapping_calls_each_create_witness:
  "(1::nat) < length [AwaitConnect ''acme|stdio|'' 0 (StdioClientTransport (Some ''acme'')),
                      NotStarted (acme None None)]
   \<and> [AwaitConnect ''acme|stdio|'' 0 (StdioClientTransport (Some ''acme'')),
        NotStarted (acme None None)] ! 1 = NotStarted (acme None None)
   \<and> \<not> missing (azureDevOpsOrg (acme None None))
   \<and> map_of [(''acme|stdio|'', acme_instance 0 1000)] (generateAuthCacheKey (acme None None))
       = Some (acme_instance 0 1000)
   \<and> isInitialized (acme_instance 0 1000)
   \<and> turn (\<lambda>i. refusing_sdk)
        ([AwaitConnect ''acme|stdio|'' 0 (StdioClientTransport (Some ''acme'')),
          NotStarted (acme None None)],
         \<lparr>clients = [(''acme|stdio|'', acme_instance 0 1000)], created = 1, calls = []\<rparr>)
        (1, 2000)
     = ([AwaitConnect ''acme|stdio|'' 0 (StdioClientTransport (Some ''acme'')),
         Settled (Inr (acme_instance 0 2000))],
        \<lparr>clients = [(''acme|stdio|'', acme_instance 0 2000)], created = 1, calls = []\<rparr>)
   \<and> \<not> isReady (Some (acme None None))
         \<lparr>clients = [], created = 1,
          calls = [Construct 0 (StdioClientTransport (Some ''acme'')), Connect 0]\<rparr>
   \<and> mcpTransportType (acme None None) \<noteq> Some ''http''
   \<and> turn (\<lambda>i. ok_sdk)
        ([AwaitConnect ''acme|stdio|'' 0 (StdioClientTransport (Some ''acme'')),
          NotStarted (acme None None)],
         \<lparr>clients = [], created = 1,
          calls = [Construct 0 (StdioClientTransport (Some ''acme'')), Connect 0]\<rparr>)
        (1, 2000)
     = ([AwaitConnect ''acme|stdio|'' 0 (StdioClientTransport (Some ''acme'')),
         AwaitConnect ''acme|stdio|'' 1 (StdioClientTransport (Some ''acme''))],
        \<lparr>clients = [], created = 2,
         calls = [Construct 0 (StdioClientTransport (Some ''acme'')), Connect 0,
                  Construct 1 (StdioClientTransport (Some ''acme'')), Connect 1]\<rparr>)
   \<and> pool_inv \<lparr>clients = [], created = 1,
          calls = [Construct 0 (StdioClientTransport (Some ''acme'')), Connect 0]\<rparr>
   \<and> pool_inv (snd (run_schedule (\<lambda>i. ok_sdk) [(1, 2000), (0, 2001), (1, 2002)]
        ([AwaitConnect ''acme|stdio|'' 0 (StdioClientTransport (Some ''acme'')),
          NotStarted (acme None None)],
         \<lparr>clients = [], created = 1,
          calls = [Construct 0 (StdioClientTransport (Some ''acme'')), Connect 0]\<rparr>)))"
proof -
  let ?ts = "[AwaitConnect ''acme|stdio|'' 0 (StdioClientTransport (Some ''acme'')),
              NotStarted (acme None None)]"
  let ?m = "\<lparr>clients = [], created = 1,
             calls = [Construct 0 (StdioClientTransport (Some ''acme'')), Connect 0]\<rparr>"
  have h: "(1::nat) < length ?ts" "?ts ! 1 = NotStarted (acme None None)"
    "\<not> missing (azureDevOpsOrg (acme None None))"
    by (simp_all add: acme_def or_else_def missing_def)
  have inv: "pool_inv ?m"
    by (simp add: pool_inv_def)
  have run: "pool_inv (snd (run_schedule (\<lambda>i. ok_sdk) [(1, 2000), (0, 2001), (1, 2002)] (?ts, ?m)))"
    using overlapping_calls_each_create [OF h, of ?m "acme_instance 0 1000" "\<lambda>i. ok_sdk" 2000
        "[(1, 2000), (0, 2001), (1, 2002)]"] inv
    by blast
  have rest: "map_of [(''acme|stdio|'', acme_instance 0 1000)] (generateAuthCacheKey (acme None None))
       = Some (acme_instance 0 1000)
   \<and> isInitialized (acme_instance 0 1000)
   \<and> turn (\<lambda>i. refusing_sdk)
        (?ts, \<lparr>clients = [(''acme|stdio|'', acme_instance 0 1000)], created = 1, calls = []\<rparr>)
        (1, 2000)
     = ([AwaitConnect ''acme|stdio|'' 0 (StdioClientTransport (Some ''acme'')),
         Settled (Inr (acme_instance 0 2000))],
        \<lparr>clients = [(''acme|stdio|'', acme_instance 0 2000)], created = 1, calls = []\<rparr>)
   \<and> \<not> isReady (Some (acme None None)) ?m
   \<and> mcpTransportType (acme None None) \<noteq> Some ''http''
   \<and> turn (\<lambda>i. ok_sdk) (?ts, ?m) (1, 2000)
     = ([AwaitConnect ''acme|stdio|'' 0 (StdioClientTransport (Some ''acme'')),
         AwaitConnect ''acme|stdio|'' 1 (StdioClientTransport (Some ''acme''))],
        \<lparr>clients = [], created = 2,
         calls = [Construct 0 (StdioClientTransport (Some ''acme'')), Connect 0,
                  Construct 1 (StdioClientTransport (Some ''acme'')), Connect 1]\<rparr>)"
    by (simp add: isReady_def generateAuthCacheKey_def or_else_def missing_def acme_def
      acme_instance_def turn_def start_create_def log_effects_def construct_def Let_def)
  from h inv run rest show ?thesis
    by (simp only: simp_thms)
qed

text \<open>A refused connection, a cached instance, and an empty pool.\<close>

theorem callTool_goes_through_getOrCreate_witness:
  "getOrCreateClient refusing_sdk 1000 (acme None None) new_manager
     = (Inl (SdkError ''connect ECONNREFUSED''),
        \<lparr>clients = [], created = 1,
         calls = [Construct 0 (StdioClientTransport (Some ''acme'')), Connect 0, Close 0]\<rparr>)
   \<and> callTool refusing_sdk 1000 ''wit_get_work_item'' None (Some (acme None None)) new_manager
     = (Inl (SdkError ''connect ECONNREFUSED''),
        \<lparr>clients = [], created = 1,
         calls = [Construct 0 (StdioClientTransport (Some ''acme'')), Connect 0, Close 0]\<rparr>)
   \<and> getOrCreateClient ok_sdk 2000 (acme None None)
        \<lparr>clients = [(''acme|stdio|'', acme_instance 0 1000)], created = 1, calls = []\<rparr>
     = (Inr (acme_instance 0 2000),
        \<lparr>clients = [(''acme|stdio|'', acme_instance 0 2000)], created = 1, calls = []\<rparr>)
   \<and> callTool ok_sdk 2000 ''wit_get_work_item'' (Some JNull) (Some (acme None None))
        \<lparr>clients = [(''acme|stdio|'', acme_instance 0 1000)], created = 1, calls = []\<rparr>
     = (Inr (JObj [(''content'', JArr [])]),
        \<lparr>clients = [(''acme|stdio|'', acme_instance 0 2000)], created = 1,
         calls = [CallTool 0 ''wit_get_work_item'' (JObj [])]\<rparr>)
   \<and> \<not> missing (azureDevOpsOrg (acme None None))
   \<and> mcpTransportType (acme None None) \<noteq> Some ''http''
   \<and> \<not> isReady (Some (acme None None)) new_manager
   \<and> connect_result ok_sdk = None \<and> listTools_result ok_sdk = Inr (Some [sample_tool])
   \<and> calls (snd (callTool ok_sdk 1000 ''no_such_tool'' None (Some (acme None None)) new_manager))
     = [Construct 0 (StdioClientTransport (Some ''acme'')), Connect 0, ListTools 0,
        CallTool 0 ''no_such_tool'' (JObj [])]"
proof -
  have 1: "getOrCreateClient refusing_sdk 1000 (acme None None) new_manager
     = (Inl (SdkError ''connect ECONNREFUSED''),
        \<lparr>clients = [], created = 1,
         calls = [Construct 0 (StdioClientTransport (Some ''acme'')), Connect 0, Close 0]\<rparr>)"
    by (simp add: ok_sdk_def refusing_sdk_def acme_def acme_instance_def sample_tool_def
      new_manager_def getOrCreateClient_def create_def createHttpClient_def
      createStdioClient_def connect_and_cache_def loadToolsForClient_def log_effects_def
      construct_def generateAuthCacheKey_def or_else_def missing_def Let_def)
  have 2: "getOrCreateClient ok_sdk 2000 (acme None None)
        \<lparr>clients = [(''acme|stdio|'', acme_instance 0 1000)], created = 1, calls = []\<rparr>
     = (Inr (acme_instance 0 2000),
        \<lparr>clients = [(''acme|stdio|'', acme_instance 0 2000)], created = 1, calls = []\<rparr>)"
    by (simp add: ok_sdk_def refusing_sdk_def acme_def acme_instance_def sample_tool_def
      new_manager_def getOrCreateClient_def create_def createHttpClient_def
      createStdioClient_def connect_and_cache_def loadToolsForClient_def log_effects_def
      construct_def generateAuthCacheKey_def or_else_def missing_def Let_def)
  have 3: "\<not> missing (azureDevOpsOrg (acme None None))
      \<and> mcpTransportType (acme None None) \<noteq> Some ''http''
      \<and> \<not> isReady (Some (acme None None)) new_manager
      \<and> connect_result ok_sdk = None \<and> listTools_result ok_sdk = Inr (Some [sample_tool])"
    by (simp add: ok_sdk_def refusing_sdk_def acme_def acme_instance_def sample_tool_def
      new_manager_def isReady_def or_else_def missing_def)
  show ?thesis
    using 1 2 3
      callTool_goes_through_getOrCreate [of refusing_sdk 1000 "''wit_get_work_item''" None new_manager "acme None None"
        "SdkError ''connect ECONNREFUSED''"
        "\<lparr>clients = [], created = 1,
          calls = [Construct 0 (StdioClientTransport (Some ''acme'')), Connect 0, Close 0]\<rparr>"
        "acme_instance 0 0" "[]"]
      callTool_goes_through_getOrCreate [of ok_sdk 2000 "''wit_get_work_item''" "Some JNull"
        "\<lparr>clients = [(''acme|stdio|'', acme_instance 0 1000)], created = 1, calls = []\<rparr>"
        "acme None None" MissingOrganization
        "\<lparr>clients = [(''acme|stdio|'', acme_instance 0 2000)], created = 1, calls = []\<rparr>"
        "acme_instance 0 2000" "[]"]
      callTool_goes_through_getOrCreate [of ok_sdk 1000 "''no_such_tool''" None new_manager "acme None None"
        MissingOrganization new_manager "acme_instance 0 0" "[sample_tool]"]
    by (simp add: or_empty_object_def ok_sdk_def acme_instance_def new_manager_def acme_def)
qed

text \<open>A creation, then a retrieval with the type spelled out and an empty URL, while the
  outside would refuse every connection.\<close>

theorem second_getOrCreate_returns_cached_witness:
  "getOrCreateClient ok_sdk 1000 (acme None None) new_manager
     = (Inr (acme_instance 0 1000),
        \<lparr>clients = [(''acme|stdio|'', acme_instance 0 1000)], created = 1,
         calls = [Construct 0 (StdioClientTransport (Some ''acme'')), Connect 0, ListTools 0]\<rparr>)
   \<and> generateAuthCacheKey (acme (Some ''stdio'') (Some [])) = generateAuthCacheKey (acme None None)
   \<and> \<not> missing (azureDevOpsOrg (acme (Some ''stdio'') (Some [])))
   \<and> getOrCreateClient refusing_sdk 2000 (acme (Some ''stdio'') (Some []))
        \<lparr>clients = [(''acme|stdio|'', acme_instance 0 1000)], created = 1,
         calls = [Construct 0 (StdioClientTransport (Some ''acme'')), Connect 0, ListTools 0]\<rparr>
     = (Inr (acme_instance 0 2000),
        \<lparr>clients = [(''acme|stdio|'', acme_instance 0 2000)], created = 1,
         calls = [Construct 0 (StdioClientTransport (Some ''acme'')), Connect 0, ListTools 0]\<rparr>)"
proof -
  have 1: "getOrCreateClient ok_sdk 1000 (acme None None) new_manager
     = (Inr (acme_instance 0 1000),
        \<lparr>clients = [(''acme|stdio|'', acme_instance 0 1000)], created = 1,
         calls = [Construct 0 (StdioClientTransport (Some ''acme'')), Connect 0, ListTools 0]\<rparr>)"
    by (simp add: ok_sdk_def refusing_sdk_def acme_def acme_instance_def sample_tool_def
      new_manager_def getOrCreateClient_def create_def createHttpClient_def
      createStdioClient_def connect_and_cache_def loadToolsForClient_def log_effects_def
      construct_def generateAuthCacheKey_def or_else_def missing_def Let_def)
  have 2: "generateAuthCacheKey (acme (Some ''stdio'') (Some []))
             = generateAuthCacheKey (acme None None)"
    by (simp add: acme_def generateAuthCacheKey_def or_else_def missing_def)
  have 3: "\<not> missing (azureDevOpsOrg (acme (Some ''stdio'') (Some [])))"
    by (simp add: acme_def or_else_def missing_def)
  show ?thesis
    using second_getOrCreate_returns_cached [OF 1 2 3, of refusing_sdk 2000]
    by (simp add: ok_sdk_def refusing_sdk_def acme_def acme_instance_def sample_tool_def
      new_manager_def getOrCreateClient_def create_def createHttpClient_def
      createStdioClient_def connect_and_cache_def loadToolsForClient_def log_effects_def
      construct_def generateAuthCacheKey_def or_else_def missing_def Let_def)
qed

text \<open>A refused HTTP connection on an empty pool, and the retry.\<close>

theorem failed_creation_leaves_no_entry_witness:
  "pool_inv new_manager
   \<and> \<not> missing (azureDevOpsOrg (acme (Some ''http'') (Some ''http://mcp:8080'')))
   \<and> \<not> isReady (Some (acme (Some ''http'') (Some ''http://mcp:8080''))) new_manager
   \<and> \<not> missing (mcpServerUrl (acme (Some ''http'') (Some ''http://mcp:8080'')))
   \<and> url_parses refusing_sdk
   \<and> connect_result refusing_sdk = Some ''connect ECONNREFUSED''
   \<and> getOrCreateClient refusing_sdk 1000 (acme (Some ''http'') (Some ''http://mcp:8080'')) new_manager
     = (Inl (SdkError ''connect ECONNREFUSED''),
        \<lparr>clients = [], created = 1,
         calls = [Construct 0 (StreamableHTTPClientTransport ''http://mcp:8080'' (Some ''acme'')),
                  Connect 0, Close 0]\<rparr>)
   \<and> calls (snd (getOrCreateClient ok_sdk 2000 (acme (Some ''http'') (Some ''http://mcp:8080''))
        \<lparr>clients = [], created = 1,
         calls = [Construct 0 (StreamableHTTPClientTransport ''http://mcp:8080'' (Some ''acme'')),
                  Connect 0, Close 0]\<rparr>))
     = [Construct 0 (StreamableHTTPClientTransport ''http://mcp:8080'' (Some ''acme'')),
        Connect 0, Close 0,
        Construct 1 (StreamableHTTPClientTransport ''http://mcp:8080'' (Some ''acme'')),
        Connect 1, ListTools 1]"
proof -
  have 1: "pool_inv new_manager"
    by (simp add: pool_inv_def new_manager_def)
  have 2: "\<not> missing (azureDevOpsOrg (acme (Some ''http'') (Some ''http://mcp:8080'')))"
    by (simp add: acme_def or_else_def missing_def)
  have 3: "\<not> isReady (Some (acme (Some ''http'') (Some ''http://mcp:8080''))) new_manager"
    by (simp add: isReady_def new_manager_def)
  have 4: "mcpTransportType (acme (Some ''http'') (Some ''http://mcp:8080'')) = Some ''http'' \<longrightarrow>
           \<not> missing (mcpServerUrl (acme (Some ''http'') (Some ''http://mcp:8080'')))
           \<and> url_parses refusing_sdk"
    by (simp add: acme_def or_else_def missing_def refusing_sdk_def ok_sdk_def)
  have 5: "connect_result refusing_sdk = Some ''connect ECONNREFUSED''
           \<or> (connect_result refusing_sdk = None
               \<and> listTools_result refusing_sdk = Inl ''connect ECONNREFUSED'')"
    by (simp add: refusing_sdk_def)
  show ?thesis
    using failed_creation_leaves_no_entry [OF 1 2 3 4 5, of 1000]
    by (simp add: ok_sdk_def refusing_sdk_def acme_def acme_instance_def sample_tool_def
      new_manager_def getOrCreateClient_def create_def createHttpClient_def
      createStdioClient_def connect_and_cache_def loadToolsForClient_def log_effects_def
      construct_def generateAuthCacheKey_def or_else_def missing_def Let_def isReady_def
      pool_inv_def)
qed

text \<open>Two instances, 31 and 10 minutes old; closing the older one fails.\<close>

theorem cleanupUnused_sweeps_by_age_witness:
  "distinct (map fst [(''acme|stdio|'', acme_instance 0 (10000000 - 31 * 60 * 1000)),
                      (''acme|http|http://mcp:8080'', acme_instance 1 (10000000 - 10 * 60 * 1000))])
   \<and> lastUsed (acme_instance 0 (10000000 - 31 * 60 * 1000)) < 10000000 - 30 * 60 * 1000
   \<and> \<not> lastUsed (acme_instance 1 (10000000 - 10 * 60 * 1000)) < 10000000 - 30 * 60 * 1000
   \<and> cleanupUnusedClients (\<lambda>c. c = 0) 10000000 30
        \<lparr>clients = [(''acme|stdio|'', acme_instance 0 (10000000 - 31 * 60 * 1000)),
                    (''acme|http|http://mcp:8080'', acme_instance 1 (10000000 - 10 * 60 * 1000))],
         created = 2, calls = []\<rparr>
     = \<lparr>clients = [(''acme|http|http://mcp:8080'', acme_instance 1 (10000000 - 10 * 60 * 1000))],
        created = 2, calls = [Close 0, LogCloseError ''acme|stdio|'']\<rparr>"
  using
    cleanupUnused_sweeps_by_age [of "\<lparr>clients = [(''acme|stdio|'', acme_instance 0 (10000000 - 31 * 60 * 1000)),
                    (''acme|http|http://mcp:8080'', acme_instance 1 (10000000 - 10 * 60 * 1000))],
         created = 2, calls = []\<rparr>" "''acme|stdio|''" "acme_instance 0 (10000000 - 31 * 60 * 1000)"
       "\<lambda>c. c = 0" 10000000 30]
    cleanupUnused_sweeps_by_age [of "\<lparr>clients = [(''acme|stdio|'', acme_instance 0 (10000000 - 31 * 60 * 1000)),
                    (''acme|http|http://mcp:8080'', acme_instance 1 (10000000 - 10 * 60 * 1000))],
         created = 2, calls = []\<rparr>" "''acme|http|http://mcp:8080''"
       "acme_instance 1 (10000000 - 10 * 60 * 1000)" "\<lambda>c. c = 0" 10000000 30]
  by (simp add: cleanupUnusedClients_def acme_instance_def AList.delete_eq)

text \<open>
  No organization; and the scenario of the specification, HTTP without a URL, on the
  manager that has created the stdio client of \<^verbatim>\<open>acme\<close>.
\<close>

theorem getOrCreate_validation_errors_witness:
  "missing (azureDevOpsOrg \<lparr>azureDevOpsOrg = None, mcpServerUrl = Some ''http://mcp:8080'',
                             mcpTransportType = Some ''http''\<rparr>)
   \<and> getOrCreateClient ok_sdk 1000
        \<lparr>azureDevOpsOrg = None, mcpServerUrl = Some ''http://mcp:8080'',
         mcpTransportType = Some ''http''\<rparr>
        \<lparr>clients = [(''acme|stdio|'', acme_instance 0 500)], created = 1,
         calls = [Construct 0 (StdioClientTransport (Some ''acme'')), Connect 0, ListTools 0]\<rparr>
     = (Inl MissingOrganization,
        \<lparr>clients = [(''acme|stdio|'', acme_instance 0 500)], created = 1,
         calls = [Construct 0 (StdioClientTransport (Some ''acme'')), Connect 0, ListTools 0]\<rparr>)
   \<and> reachable (Some ''acme'')
        ([], \<lparr>clients = [(''acme|stdio|'', acme_instance 0 500)], created = 1,
              calls = [Construct 0 (StdioClientTransport (Some ''acme'')), Connect 0,
                       ListTools 0]\<rparr>)
   \<and> azureDevOpsOrg (acme (Some ''http'') None) = Some ''acme''
   \<and> \<not> missing (azureDevOpsOrg (acme (Some ''http'') None))
   \<and> mcpTransportType (acme (Some ''http'') None) = Some ''http''
   \<and> missing (mcpServerUrl (acme (Some ''http'') None))
   \<and> getOrCreateClient ok_sdk 1000 (acme (Some ''http'') None)
        \<lparr>clients = [(''acme|stdio|'', acme_instance 0 500)], created = 1,
         calls = [Construct 0 (StdioClientTransport (Some ''acme'')), Connect 0, ListTools 0]\<rparr>
     = (Inl MissingServerUrl,
        \<lparr>clients = [(''acme|stdio|'', acme_instance 0 500)], created = 1,
         calls = [Construct 0 (StdioClientTransport (Some ''acme'')), Connect 0, ListTools 0]\<rparr>)
   \<and> resume ok_sdk 1000 (NotStarted (acme (Some ''http'') None))
        \<lparr>clients = [(''acme|stdio|'', acme_instance 0 500)], created = 1,
         calls = [Construct 0 (StdioClientTransport (Some ''acme'')), Connect 0, ListTools 0]\<rparr>
     = (Settled (Inl MissingServerUrl),
        \<lparr>clients = [(''acme|stdio|'', acme_instance 0 500)], created = 1,
         calls = [Construct 0 (StdioClientTransport (Some ''acme'')), Connect 0, ListTools 0]\<rparr>)"
proof -
  have r: "reachable (Some ''acme'')
        ([], \<lparr>clients = [(''acme|stdio|'', acme_instance 0 500)], created = 1,
              calls = [Construct 0 (StdioClientTransport (Some ''acme'')), Connect 0,
                       ListTools 0]\<rparr>)"
    using reachable.get_or_create
      [OF reachable.initial, where org = "Some ''acme''" and authContext = "acme None None"
         and sdk = ok_sdk and now = 500]
    by (simp add: ok_sdk_def acme_def acme_instance_def sample_tool_def new_manager_def
        getOrCreateClient_def create_def createStdioClient_def connect_and_cache_def
        loadToolsForClient_def log_effects_def construct_def generateAuthCacheKey_def
        or_else_def missing_def Let_def)
  show ?thesis
    using r
      getOrCreate_validation_errors
        [where ctx = "\<lparr>azureDevOpsOrg = None, mcpServerUrl = Some ''http://mcp:8080'',
                        mcpTransportType = Some ''http''\<rparr>"
           and ctx' = "acme (Some ''http'') None" and sdk = ok_sdk and now = 1000
           and ts = "[]"
           and m = "\<lparr>clients = [(''acme|stdio|'', acme_instance 0 500)], created = 1,
                     calls = [Construct 0 (StdioClientTransport (Some ''acme'')), Connect 0,
                              ListTools 0]\<rparr>"
           and m' = "\<lparr>clients = [(''acme|stdio|'', acme_instance 0 500)], created = 1,
                      calls = [Construct 0 (StdioClientTransport (Some ''acme'')), Connect 0,
                               ListTools 0]\<rparr>"]
    by (simp add: acme_def missing_def)
qed

text \<open>
  The theorem of C9 is about a manager that serves one organization. The key is the three
  fields joined by \<^verbatim>\<open>|\<close> without escaping, so contexts of two organizations can have
  one key: the stdio context of \<^verbatim>\<open>x\<close> with the URL \<^verbatim>\<open>http|\<close> and the HTTP
  context of \<^verbatim>\<open>x|stdio\<close> without a URL. A manager called with both serves the second
  from the instance of the first.
\<close>

lemma two_organizations_one_key:
  "mcpTransportType \<lparr>azureDevOpsOrg = Some ''x|stdio'', mcpServerUrl = None,
                      mcpTransportType = Some ''http''\<rparr> = Some ''http''
   \<and> mcpServerUrl \<lparr>azureDevOpsOrg = Some ''x|stdio'', mcpServerUrl = None,
                    mcpTransportType = Some ''http''\<rparr> = None
   \<and> getOrCreateClient ok_sdk 1000
        \<lparr>azureDevOpsOrg = Some ''x'', mcpServerUrl = Some ''http|'',
         mcpTransportType = Some ''stdio''\<rparr> new_manager
     = (Inr \<lparr>client = 0, transport = StdioClientTransport (Some ''x''), tools = [sample_tool],
             isInitialized = True, lastUsed = 1000\<rparr>,
        \<lparr>clients = [(''x|stdio|http|'',
                      \<lparr>client = 0, transport = StdioClientTransport (Some ''x''),
                       tools = [sample_tool], isInitialized = True, lastUsed = 1000\<rparr>)],
         created = 1,
         calls = [Construct 0 (StdioClientTransport (Some ''x'')), Connect 0, ListTools 0]\<rparr>)
   \<and> getOrCreateClient ok_sdk 2000
        \<lparr>azureDevOpsOrg = Some ''x|stdio'', mcpServerUrl = None, mcpTransportType = Some ''http''\<rparr>
        \<lparr>clients = [(''x|stdio|http|'',
                      \<lparr>client = 0, transport = StdioClientTransport (Some ''x''),
                       tools = [sample_tool], isInitialized = True, lastUsed = 1000\<rparr>)],
         created = 1,
         calls = [Construct 0 (StdioClientTransport (Some ''x'')), Connect 0, ListTools 0]\<rparr>
     = (Inr \<lparr>client = 0, transport = StdioClientTransport (Some ''x''), tools = [sample_tool],
             isInitialized = True, lastUsed = 2000\<rparr>,
        \<lparr>clients = [(''x|stdio|http|'',
                      \<lparr>client = 0, transport = StdioClientTransport (Some ''x''),
                       tools = [sample_tool], isInitialized = True, lastUsed = 2000\<rparr>)],
         created = 1,
         calls = [Construct 0 (StdioClientTransport (Some ''x'')), Connect 0, ListTools 0]\<rparr>)"
  by (simp add: ok_sdk_def refusing_sdk_def acme_def acme_instance_def sample_tool_def
      new_manager_def getOrCreateClient_def create_def createHttpClient_def
      createStdioClient_def connect_and_cache_def loadToolsForClient_def log_effects_def
      construct_def generateAuthCacheKey_def or_else_def missing_def Let_def)

text \<open>The organization \<^verbatim>\<open>acme\<close> with and without the transport type.\<close>

theorem absent_transport_type_is_stdio_witness:
  "azureDevOpsOrg (acme None None) = azureDevOpsOrg (acme (Some ''stdio'') None)
   \<and> mcpServerUrl (acme None None) = mcpServerUrl (acme (Some ''stdio'') None)
   \<and> mcpTransportType (acme None None) = None
   \<and> mcpTransportType (acme (Some ''stdio'') None) = Some ''stdio''
   \<and> generateAuthCacheKey (acme None None) = ''acme|stdio|''
   \<and> generateAuthCacheKey (acme (Some ''stdio'') None) = ''acme|stdio|''
   \<and> getOrCreateClient ok_sdk 1000 (acme None None) new_manager
     = (Inr (acme_instance 0 1000),
        \<lparr>clients = [(''acme|stdio|'', acme_instance 0 1000)], created = 1,
         calls = [Construct 0 (StdioClientTransport (Some ''acme'')), Connect 0, ListTools 0]\<rparr>)
   \<and> getOrCreateClient refusing_sdk 2000 (acme (Some ''stdio'') None)
        \<lparr>clients = [(''acme|stdio|'', acme_instance 0 1000)], created = 1,
         calls = [Construct 0 (StdioClientTransport (Some ''acme'')), Connect 0, ListTools 0]\<rparr>
     = (Inr (acme_instance 0 2000),
        \<lparr>clients = [(''acme|stdio|'', acme_instance 0 2000)], created = 1,
         calls = [Construct 0 (StdioClientTransport (Some ''acme'')), Connect 0, ListTools 0]\<rparr>)"
proof -
  have h: "azureDevOpsOrg (acme None None) = azureDevOpsOrg (acme (Some ''stdio'') None)"
    "mcpServerUrl (acme None None) = mcpServerUrl (acme (Some ''stdio'') None)"
    "mcpTransportType (acme None None) = None"
    "mcpTransportType (acme (Some ''stdio'') None) = Some ''stdio''"
    by (simp_all add: acme_def)
  have 1: "getOrCreateClient ok_sdk 1000 (acme None None) new_manager
     = (Inr (acme_instance 0 1000),
        \<lparr>clients = [(''acme|stdio|'', acme_instance 0 1000)], created = 1,
         calls = [Construct 0 (StdioClientTransport (Some ''acme'')), Connect 0, ListTools 0]\<rparr>)"
    by (simp add: ok_sdk_def refusing_sdk_def acme_def acme_instance_def sample_tool_def
      new_manager_def getOrCreateClient_def create_def createHttpClient_def
      createStdioClient_def connect_and_cache_def loadToolsForClient_def log_effects_def
      construct_def generateAuthCacheKey_def or_else_def missing_def Let_def)
  have k: "generateAuthCacheKey (acme None None) = ''acme|stdio|''"
    by (simp add: acme_def generateAuthCacheKey_def or_else_def missing_def)
  show ?thesis
    using absent_transport_type_is_stdio [OF h, of ok_sdk 1000 new_manager "acme_instance 0 1000"
      "\<lparr>clients = [(''acme|stdio|'', acme_instance 0 1000)], created = 1,
         calls = [Construct 0 (StdioClientTransport (Some ''acme'')), Connect 0, ListTools 0]\<rparr>"
      refusing_sdk 2000]
    by (simp add: ok_sdk_def refusing_sdk_def acme_def acme_instance_def sample_tool_def
      new_manager_def getOrCreateClient_def create_def createHttpClient_def
      createStdioClient_def connect_and_cache_def loadToolsForClient_def log_effects_def
      construct_def generateAuthCacheKey_def or_else_def missing_def Let_def)
qed

end
